theory Spec2Isabelle
  imports Main
begin

section \<open>Data model of the App resource (first module of \<^verbatim>\<open>part_000\<close>)\<close>

text \<open>
  Identifiers are strings at run time; \<^verbatim>\<open>Opaque<ResourceId>\<close> is a compile-time brand
  only, so the casts \<^verbatim>\<open>pod.id as AppId\<close>, \<^verbatim>\<open>pod.owner as IdentityId\<close> change no value.
\<close>

type_synonym ResourceId = string
type_synonym AppId = string
type_synonym IdentityId = string

text \<open>
  \<^verbatim>\<open>PODModel\<close> is declared in \<^verbatim>\<open>model.ts\<close>; its two fields are the ones the
  constructor reads (\<^verbatim>\<open>pod.id\<close>, \<^verbatim>\<open>pod.createdAt\<close>). A field declared with \<^verbatim>\<open>?\<close> may be
  absent: its type is an \<open>option\<close>, \<open>None\<close> being \<^verbatim>\<open>undefined\<close>.
\<close>

record PODModel =
  id' :: ResourceId
  createdAt :: string

text \<open>A JSON value, for the parts of the wire format no type of the module describes.\<close>

datatype json =
    JNull
  | JBool bool
  | JNum int
  | JStr string
  | JArr "json list"
  | JObj "(string \<times> json) list"

text \<open>
  Modelled from the spec: the plain data of a Dataset (\<^verbatim>\<open>dataset.ts\<close>, not among the
  sources), with the fields of the fixture \<^verbatim>\<open>createPodDataset\<close> of the unit tests.
\<close>

record PODDataset = PODModel +
  creator :: ResourceId
  owner :: ResourceId
  metadata :: "json option"

text \<open>
  \<^verbatim>\<open>PODApp\<close> of the second module of the file, an earlier version of the same module
  with its own fields (\<^verbatim>\<open>homepage\<close>, an optional \<^verbatim>\<open>logo\<close>; no \<^verbatim>\<open>allowUserUploads\<close>, no
  \<^verbatim>\<open>trusted\<close>).
\<close>

record PODApp_v2 = PODModel +
  acceptanceText :: "string option"
  admins :: "ResourceId list"
  brandingColor :: "string option"
  category :: "string option"
  collaborators :: "ResourceId list"
  extendedDescription :: "string option"
  homepage :: string
  invitationText :: "string option"
  inviteOnly :: bool
  invites :: "ResourceId list option"
  logo :: "string option"
  name :: string
  organization :: string
  owner :: ResourceId
  participants :: "ResourceId list"
  privacyPolicy :: string
  published :: bool
  rejectionText :: "string option"
  shortDescription :: string
  termsAndConditions :: string

text \<open>\<^verbatim>\<open>PODApp\<close> of the first module.\<close>

record PODApp = PODModel +
  acceptanceText :: "string option"
  admins :: "ResourceId list"
  allowUserUploads :: bool
  brandingColor :: "string option"
  category :: "string option"
  collaborators :: "ResourceId list"
  extendedDescription :: "string option"
  homepageUrl :: string
  invitationText :: "string option"
  inviteOnly :: bool
  invites :: "ResourceId list option"
  logoUrl :: string
  name :: string
  organization :: string
  owner :: ResourceId
  participants :: "ResourceId list"
  published :: bool
  rejectionText :: "string option"
  shortDescription :: string
  termsAndConditions :: string
  privacyPolicy :: string
  trusted :: bool

text \<open>
  A JavaScript \<^verbatim>\<open>Date\<close> holds a time value: milliseconds since the epoch, or \<^verbatim>\<open>NaN\<close>
  (\<open>None\<close>) for an invalid date. Two dates are equal by value when their time values
  are. The parser behind \<^verbatim>\<open>new Date(string)\<close> belongs to the platform; the model takes
  it as the parameter \<open>parse\<close> of every function that constructs an \<^verbatim>\<open>App\<close>.
\<close>

datatype Date = Date (getTime: "int option")

type_synonym DateParser = "string \<Rightarrow> int option"

text \<open>
  \<^verbatim>\<open>Page<T>\<close> is declared in \<^verbatim>\<open>model.ts\<close>; \<^verbatim>\<open>AppImpl.list\<close> reads and writes its two
  fields \<^verbatim>\<open>results\<close> and \<^verbatim>\<open>nextPageToken\<close>.
\<close>

record 'a Page =
  results :: "'a list"
  nextPageToken :: "string option"

section \<open>The transport\<close>

text \<open>
  Request bodies (\<^verbatim>\<open>AppCreateParams\<close>, \<^verbatim>\<open>AppUpdateParams\<close>) are built with
  \<^verbatim>\<open>WritableExcluding\<close>, \<^verbatim>\<open>Except\<close> and \<^verbatim>\<open>IdentityTokenVerifier\<close>, declared outside this
  module. The operations hand them to the transport untouched, so a body is the JSON
  value it is at run time.
\<close>

type_synonym AppCreateParams = json
type_synonym AppUpdateParams = json

text \<open>
  A filter (\<^verbatim>\<open>ListAppsFilter & PageParams\<close> for apps) is an object: a list of keys with
  their matcher values, in insertion order. A matcher is a scalar (text or number) or a
  composite all-of matcher over a list of strings (the one composite matcher whose
  encoding the specification fixes).
\<close>

datatype matcher =
    Text string
  | Number int
  | AllOf "string list"

type_synonym filter' = "(string \<times> matcher) list"

datatype verb = GET | POST | PUT | DELETE

text \<open>
  Modelled from the spec: the wire format of a request (\<^verbatim>\<open>http.ts\<close> is not among the
  sources). A body is JSON, or \<^verbatim>\<open>multipart/form-data\<close>: a list of named parts, each with
  its declared content type.
\<close>

datatype content = JsonContent json | BinaryContent string

record part =
  partName :: string
  contentType :: string
  content :: content

datatype body = Json json | Multipart "part list"

record request =
  verb :: verb
  endpoint :: string
  query :: "(string \<times> string) list"
  body :: "body option"

text \<open>
  Modelled from the spec: what the gateway answers, a status code and a body. The
  generic methods
  \<^verbatim>\<open>client.get<PODApp>\<close>, \<^verbatim>\<open>client.get<Page<PODApp>>\<close> type the parsed body; the model
  keeps one constructor for each shape the modules ask for.
\<close>

datatype payload =
    NoContent
  | AppJson PODApp
  | AppPageJson "PODApp Page"
  | AppJson_v2 PODApp_v2
  | AppPageJson_v2 "PODApp_v2 Page"
  | DatasetJson PODDataset
  | DatasetPageJson "PODDataset Page"
  | Bytes "string list"
  | OtherJson json

record response =
  status :: nat
  payload :: payload

text \<open>
  Modelled from the spec: the error taxonomy. A \<open>RequestError\<close> carries the status code
  and the body the gateway sent; a \<open>ContractViolation\<close> is a success-shaped response
  that violates the expected shape; \<open>Thrown\<close> is an error object raised by code of the
  caller (its message), such as a destination sink.
\<close>

datatype error =
    RequestError response
  | ContractViolation response
  | Thrown string

text \<open>
  Modelled from the spec: the \<^verbatim>\<open>HttpClient\<close> of \<^verbatim>\<open>http.ts\<close>, the transport capability that
  is injected into every operation and stored in every \<^verbatim>\<open>App\<close>. All the model knows of
  it is the gateway behind it: the response to a request, which may depend on the
  requests sent before.
\<close>

datatype HttpClient = HttpClient (gateway: "request list \<Rightarrow> request \<Rightarrow> response")

text \<open>
  Modelled from the spec: the Dataset resource model object (\<^verbatim>\<open>dataset.ts\<close>, not among
  the sources): the projection of a Dataset snapshot, with the transport it was made
  with.
\<close>

record Dataset =
  client :: HttpClient
  id' :: ResourceId
  createdAt :: Date
  creator :: IdentityId
  owner :: IdentityId
  metadata :: "json option"

text \<open>
  Modelled from the spec: the constructor of a Dataset, which by the round-trip
  property keeps every field of the snapshot, the identifiers as they are and the
  timestamp parsed.
\<close>

definition Dataset_constructor :: "DateParser \<Rightarrow> HttpClient \<Rightarrow> PODDataset \<Rightarrow> Dataset" where
  "Dataset_constructor parse c pod =
     \<lparr> Dataset.client = c,
       Dataset.id' = PODModel.id' pod,
       Dataset.createdAt = Date (parse (PODModel.createdAt pod)),
       Dataset.creator = PODDataset.creator pod,
       Dataset.owner = PODDataset.owner pod,
       Dataset.metadata = PODDataset.metadata pod \<rparr>"

text \<open>
  Modelled from the spec: the optional parameters of \<^verbatim>\<open>uploadDataset\<close>, of which the
  specification names the metadata.
\<close>

record DatasetUploadParams =
  metadata :: "json option"

section \<open>The App class of the second module\<close>

text \<open>
  The fields of \<^verbatim>\<open>class App\<close> in the second module of the file, with the private
  \<^verbatim>\<open>client\<close>; \<^verbatim>\<open>invites\<close> holds what the snapshot has, as in the first module.
\<close>

record App_v2 =
  client :: HttpClient
  id' :: AppId
  createdAt :: Date
  owner :: IdentityId
  admins :: "IdentityId list"
  collaborators :: "IdentityId list"
  published :: bool
  inviteOnly :: bool
  invites :: "IdentityId list option"
  participants :: "IdentityId list"
  name :: string
  organization :: string
  shortDescription :: string
  homepage :: string
  privacyPolicy :: string
  termsAndConditions :: string
  invitationText :: "string option"
  acceptanceText :: "string option"
  rejectionText :: "string option"
  extendedDescription :: "string option"
  brandingColor :: "string option"
  category :: "string option"
  logo :: "string option"

text \<open>The constructor body of the second module.\<close>

definition App_v2_constructor :: "DateParser \<Rightarrow> HttpClient \<Rightarrow> PODApp_v2 \<Rightarrow> App_v2" where
  "App_v2_constructor parse c pod =
     \<lparr> App_v2.client = c,
       App_v2.id' = PODModel.id' pod,
       App_v2.createdAt = Date (parse (PODModel.createdAt pod)),
       App_v2.owner = PODApp_v2.owner pod,
       App_v2.admins = PODApp_v2.admins pod,
       App_v2.collaborators = PODApp_v2.collaborators pod,
       App_v2.published = PODApp_v2.published pod,
       App_v2.inviteOnly = PODApp_v2.inviteOnly pod,
       App_v2.invites = PODApp_v2.invites pod,
       App_v2.participants = PODApp_v2.participants pod,
       App_v2.name = PODApp_v2.name pod,
       App_v2.organization = PODApp_v2.organization pod,
       App_v2.shortDescription = PODApp_v2.shortDescription pod,
       App_v2.homepage = PODApp_v2.homepage pod,
       App_v2.privacyPolicy = PODApp_v2.privacyPolicy pod,
       App_v2.termsAndConditions = PODApp_v2.termsAndConditions pod,
       App_v2.invitationText = PODApp_v2.invitationText pod,
       App_v2.acceptanceText = PODApp_v2.acceptanceText pod,
       App_v2.rejectionText = PODApp_v2.rejectionText pod,
       App_v2.extendedDescription = PODApp_v2.extendedDescription pod,
       App_v2.brandingColor = PODApp_v2.brandingColor pod,
       App_v2.category = PODApp_v2.category pod,
       App_v2.logo = PODApp_v2.logo pod \<rparr>"

text \<open>\<^verbatim>\<open>Object.assign\<close> on two objects of the second module.\<close>

definition Object_assign_v2 :: "App_v2 \<Rightarrow> App_v2 \<Rightarrow> App_v2" where
  "Object_assign_v2 target source =
     target\<lparr> App_v2.client := App_v2.client source,
       App_v2.acceptanceText := App_v2.acceptanceText source,
       App_v2.admins := App_v2.admins source,
       App_v2.brandingColor := App_v2.brandingColor source,
       App_v2.category := App_v2.category source,
       App_v2.collaborators := App_v2.collaborators source,
       App_v2.createdAt := App_v2.createdAt source,
       App_v2.owner := App_v2.owner source,
       App_v2.extendedDescription := App_v2.extendedDescription source,
       App_v2.homepage := App_v2.homepage source,
       App_v2.id' := App_v2.id' source,
       App_v2.invites := App_v2.invites source,
       App_v2.invitationText := App_v2.invitationText source,
       App_v2.inviteOnly := App_v2.inviteOnly source,
       App_v2.name := App_v2.name source,
       App_v2.organization := App_v2.organization source,
       App_v2.participants := App_v2.participants source,
       App_v2.privacyPolicy := App_v2.privacyPolicy source,
       App_v2.published := App_v2.published source,
       App_v2.rejectionText := App_v2.rejectionText source,
       App_v2.shortDescription := App_v2.shortDescription source,
       App_v2.termsAndConditions := App_v2.termsAndConditions source,
       App_v2.logo := App_v2.logo source \<rparr>"

section \<open>The App class\<close>

text \<open>
  The fields of \<^verbatim>\<open>class App\<close>, with the private \<^verbatim>\<open>client\<close> of the constructor's
  parameter property. \<^verbatim>\<open>invites\<close> is declared \<^verbatim>\<open>IdentityId[]\<close>, but the constructor
  stores \<^verbatim>\<open>pod.invites\<close>, which may be \<^verbatim>\<open>undefined\<close>: at run time the field holds an
  optional list, and that is its type here.
\<close>

record App =
  client :: HttpClient
  id' :: AppId
  createdAt :: Date
  owner :: IdentityId
  admins :: "IdentityId list"
  collaborators :: "IdentityId list"
  published :: bool
  inviteOnly :: bool
  invites :: "IdentityId list option"
  participants :: "IdentityId list"
  allowUserUploads :: bool
  name :: string
  organization :: string
  shortDescription :: string
  homepageUrl :: string
  logoUrl :: string
  privacyPolicy :: string
  termsAndConditions :: string
  invitationText :: "string option"
  acceptanceText :: "string option"
  rejectionText :: "string option"
  extendedDescription :: "string option"
  brandingColor :: "string option"
  category :: "string option"
  trusted :: bool

text \<open>
  The constructor body: one field for each assignment
  \<^verbatim>\<open>this.acceptanceText = pod.acceptanceText; ...\<close> of the source, and \<^verbatim>\<open>client\<close>.
  \<open>App_constructor\<close> is the object once the constructor has run.
\<close>

definition App_constructor :: "DateParser \<Rightarrow> HttpClient \<Rightarrow> PODApp \<Rightarrow> App" where
  "App_constructor parse c pod =
     \<lparr> client = c,
       id' = PODModel.id' pod,
       createdAt = Date (parse (PODModel.createdAt pod)),
       owner = PODApp.owner pod,
       admins = PODApp.admins pod,
       collaborators = PODApp.collaborators pod,
       published = PODApp.published pod,
       inviteOnly = PODApp.inviteOnly pod,
       invites = PODApp.invites pod,
       participants = PODApp.participants pod,
       allowUserUploads = PODApp.allowUserUploads pod,
       name = PODApp.name pod,
       organization = PODApp.organization pod,
       shortDescription = PODApp.shortDescription pod,
       homepageUrl = PODApp.homepageUrl pod,
       logoUrl = PODApp.logoUrl pod,
       privacyPolicy = PODApp.privacyPolicy pod,
       termsAndConditions = PODApp.termsAndConditions pod,
       invitationText = PODApp.invitationText pod,
       acceptanceText = PODApp.acceptanceText pod,
       rejectionText = PODApp.rejectionText pod,
       extendedDescription = PODApp.extendedDescription pod,
       brandingColor = PODApp.brandingColor pod,
       category = PODApp.category pod,
       trusted = PODApp.trusted pod \<rparr>"

text \<open>
  \<^verbatim>\<open>Object.assign(target, source)\<close> copies every own enumerable property of the source
  into the target. An \<^verbatim>\<open>App\<close> built by the constructor owns each of its fields, also
  those assigned \<^verbatim>\<open>undefined\<close>.
\<close>

definition Object_assign :: "App \<Rightarrow> App \<Rightarrow> App" where
  "Object_assign target source =
     target\<lparr> client := client source,
       acceptanceText := acceptanceText source,
       admins := admins source,
       allowUserUploads := allowUserUploads source,
       brandingColor := brandingColor source,
       category := category source,
       collaborators := collaborators source,
       createdAt := createdAt source,
       owner := owner source,
       extendedDescription := extendedDescription source,
       homepageUrl := homepageUrl source,
       id' := id' source,
       invites := invites source,
       invitationText := invitationText source,
       inviteOnly := inviteOnly source,
       name := name source,
       organization := organization source,
       participants := participants source,
       privacyPolicy := privacyPolicy source,
       published := published source,
       rejectionText := rejectionText source,
       shortDescription := shortDescription source,
       termsAndConditions := termsAndConditions source,
       logoUrl := logoUrl source,
       trusted := trusted source \<rparr>"

section \<open>Objects and requests: the state of a run\<close>

text \<open>
  An \<^verbatim>\<open>App\<close> object is mutable and is known by its reference. The heap is the list of
  the objects allocated so far, a reference is an index into it, and \<^verbatim>\<open>new\<close> appends.
  \<open>sent\<close> is the log of the requests handed to the gateway, oldest first. The type
  \<open>'o\<close> of the objects is \<open>App\<close> for the first module of the file and \<open>App_v2\<close> for the
  second.
\<close>

type_synonym ref = nat

record 'o world =
  heap :: "'o list"
  sent :: "request list"

definition App_new :: "DateParser \<Rightarrow> HttpClient \<Rightarrow> PODApp \<Rightarrow> App world \<Rightarrow> ref \<times> App world" where
  "App_new parse c pod w =
     (length (heap w), w\<lparr>heap := heap w @ [App_constructor parse c pod]\<rparr>)"

section \<open>The methods of the transport\<close>

text \<open>
  The methods \<^verbatim>\<open>create\<close>, \<^verbatim>\<open>get\<close>, \<^verbatim>\<open>update\<close> and \<^verbatim>\<open>delete\<close> of \<^verbatim>\<open>HttpClient\<close> are in
  \<^verbatim>\<open>http.ts\<close>, which is not among the sources; the specification gives their contract.
\<close>

text \<open>
  Modelled from the spec: one request per operation. The request goes to the gateway
  and into the log.
\<close>

definition send :: "HttpClient \<Rightarrow> request \<Rightarrow> 'o world \<Rightarrow> response \<times> 'o world" where
  "send c rq w = (gateway c (sent w) rq, w\<lparr>sent := sent w @ [rq]\<rparr>)"

text \<open>
  Modelled from the spec: the status a method expects. The expected status is success.
  Any other status is an error: a \<open>ContractViolation\<close> when the response is
  success-shaped and has a body where the expected one was mandated (as 200 with a body
  where 204 was), a \<open>RequestError\<close> otherwise.
\<close>

definition expect :: "nat \<Rightarrow> response \<Rightarrow> error + response" where
  "expect code r =
     (if status r = code then Inr r
      else if 200 \<le> status r \<and> status r < 300 then
        (case payload r of
           NoContent \<Rightarrow> Inl (RequestError r)
         | _ \<Rightarrow> Inl (ContractViolation r))
      else Inl (RequestError r))"

text \<open>
  Modelled from the spec: the type argument of a generic method (\<^verbatim>\<open>client.get<PODApp>\<close>) is
  the decoder of the body; a body of another shape violates the contract.
\<close>

definition as_PODApp :: "response \<Rightarrow> error + PODApp" where
  "as_PODApp r = (case payload r of AppJson pod \<Rightarrow> Inr pod | _ \<Rightarrow> Inl (ContractViolation r))"

text \<open>
  Modelled from the spec: the decoder for \<^verbatim>\<open>Page<PODApp>\<close>.
\<close>

definition as_PODApp_Page :: "response \<Rightarrow> error + PODApp Page" where
  "as_PODApp_Page r =
     (case payload r of AppPageJson page \<Rightarrow> Inr page | _ \<Rightarrow> Inl (ContractViolation r))"

text \<open>
  Modelled from the spec: the decoder for \<^verbatim>\<open>void\<close>; the body of the response is not read.
\<close>

definition as_void :: "response \<Rightarrow> error + unit" where
  "as_void r = Inr ()"

text \<open>
  Modelled from the spec: a response is checked for its status, then decoded.
\<close>

definition receive :: "nat \<Rightarrow> (response \<Rightarrow> error + 'a) \<Rightarrow> response \<Rightarrow> error + 'a" where
  "receive code decode r = (case expect code r of Inl e \<Rightarrow> Inl e | Inr r' \<Rightarrow> decode r')"

text \<open>
  The translation of a filter into query parameters is done behind \<^verbatim>\<open>client.get\<close>, not
  among the sources; the specification describes it, and the unit test computes the
  parameter names it expects with \<^verbatim>\<open>paramCase\<close> of the package \<^verbatim>\<open>param-case\<close>.
\<close>

text \<open>Modelled from the spec: the capital letters \<^verbatim>\<open>A\<close> to \<^verbatim>\<open>Z\<close>.\<close>

definition is_upper :: "char \<Rightarrow> bool" where
  "is_upper c = (65 \<le> (of_char c :: nat) \<and> (of_char c :: nat) \<le> 90)"

text \<open>Modelled from the spec: the small letters \<^verbatim>\<open>a\<close> to \<^verbatim>\<open>z\<close>.\<close>

definition is_lower :: "char \<Rightarrow> bool" where
  "is_lower c = (97 \<le> (of_char c :: nat) \<and> (of_char c :: nat) \<le> 122)"

text \<open>Modelled from the spec: the digits \<^verbatim>\<open>0\<close> to \<^verbatim>\<open>9\<close>.\<close>

definition is_digit :: "char \<Rightarrow> bool" where
  "is_digit c = (48 \<le> (of_char c :: nat) \<and> (of_char c :: nat) \<le> 57)"

text \<open>Modelled from the spec: the characters of a word, letters and digits.\<close>

definition is_alnum :: "char \<Rightarrow> bool" where
  "is_alnum c = (is_upper c \<or> is_lower c \<or> is_digit c)"

text \<open>Modelled from the spec: the small letter of a capital letter.\<close>

definition to_lower :: "char \<Rightarrow> char" where
  "to_lower c = (if is_upper c then char_of ((of_char c :: nat) + 32) else c)"

text \<open>
  Modelled from the spec: the mark that \<^verbatim>\<open>param-case\<close> puts between two words before it
  joins them, the character with code 0.
\<close>

definition NUL :: char where
  "NUL = char_of (0 :: nat)"

text \<open>
  Modelled from the spec: the first split of \<^verbatim>\<open>param-case\<close>, \<^verbatim>\<open>/([a-z0-9])([A-Z])/g\<close>: a
  word ends where a small letter or a digit meets a capital.
\<close>

fun split_camel :: "string \<Rightarrow> string" where
  "split_camel (a # b # cs) =
     (if (is_lower a \<or> is_digit a) \<and> is_upper b then a # NUL # split_camel (b # cs)
      else a # split_camel (b # cs))"
| "split_camel cs = cs"

text \<open>
  Modelled from the spec: the second split of \<^verbatim>\<open>param-case\<close>,
  \<^verbatim>\<open>/([A-Z])([A-Z][a-z])/g\<close>: in a run of capitals the last one starts a word when a small
  letter follows it. A match takes its three characters; the search goes on after them.
\<close>

fun split_upper :: "string \<Rightarrow> string" where
  "split_upper (a # b # c # cs) =
     (if is_upper a \<and> is_upper b \<and> is_lower c then a # NUL # b # c # split_upper cs
      else a # split_upper (b # c # cs))"
| "split_upper cs = cs"

text \<open>
  Modelled from the spec: the strip of \<^verbatim>\<open>param-case\<close>, \<^verbatim>\<open>/[^A-Z0-9]+/gi\<close>: every run of
  characters that are neither letters nor digits becomes one mark.
\<close>

function strip :: "string \<Rightarrow> string" where
  "strip [] = []"
| "strip (c # cs) =
     (if is_alnum c then c # strip cs
      else NUL # strip (dropWhile (\<lambda>x. \<not> is_alnum x) cs))"
  by pat_completeness auto
termination
  by (relation "measure length") (auto simp: le_imp_less_Suc length_dropWhile_le)

text \<open>Modelled from the spec: the marks at the two ends are dropped.\<close>

definition trim :: "string \<Rightarrow> string" where
  "trim s = rev (dropWhile (\<lambda>c. c = NUL) (rev (dropWhile (\<lambda>c. c = NUL) s)))"

text \<open>
  Modelled from the spec: the lowercase-hyphenated form of a key, as \<^verbatim>\<open>paramCase\<close> of
  \<^verbatim>\<open>param-case\<close> computes it: the key is split into words, the words are lowered and
  joined by hyphens. \<^verbatim>\<open>pageSize\<close> is \<^verbatim>\<open>page-size\<close>.
\<close>

definition paramCase :: "string \<Rightarrow> string" where
  "paramCase k =
     map (\<lambda>c. if c = NUL then CHR ''-'' else to_lower c)
       (trim (strip (split_upper (split_camel k))))"

text \<open>
  Modelled from the spec: the decimal digits, for the string form of a number.
\<close>

definition digit :: "nat \<Rightarrow> char" where
  "digit d = char_of (48 + d)"

text \<open>
  Modelled from the spec: the string form of a natural number, in decimal.
\<close>

fun string_of_nat :: "nat \<Rightarrow> string" where
  "string_of_nat n = (if n < 10 then [digit n] else string_of_nat (n div 10) @ [digit (n mod 10)])"

declare string_of_nat.simps [simp del]

text \<open>
  Modelled from the spec: the string form of an integer.
\<close>

definition string_of_int :: "int \<Rightarrow> string" where
  "string_of_int i = (if i < 0 then CHR ''-'' # string_of_nat (nat (- i)) else string_of_nat (nat i))"

text \<open>
  The number a string of decimal digits denotes. It is not part of the translation: it
  says what the string form of a number is.
\<close>

definition decimal_value :: "string \<Rightarrow> nat" where
  "decimal_value ds = foldl (\<lambda>a ch. 10 * a + ((of_char ch :: nat) - 48)) 0 ds"

text \<open>
  Modelled from the spec: the strings of a list with a separator between them.
\<close>

fun join :: "string \<Rightarrow> string list \<Rightarrow> string" where
  "join sep [] = []"
| "join sep [x] = x"
| "join sep (x # y # ys) = x @ sep @ join sep (y # ys)"

text \<open>
  Modelled from the spec: the value of a query parameter. A scalar is its string form;
  an all-of matcher over \<^verbatim>\<open>["tag1","tag2"]\<close> is \<^verbatim>\<open>all:tag1,tag2\<close>.
\<close>

fun serialize :: "matcher \<Rightarrow> string" where
  "serialize (Text s) = s"
| "serialize (Number n) = string_of_int n"
| "serialize (AllOf tags) = ''all:'' @ join '','' tags"

text \<open>
  Modelled from the spec: the query parameters of a filter, one for each key, in the
  order of the keys; no filter gives no parameter.
\<close>

definition queryParams :: "filter' option \<Rightarrow> (string \<times> string) list" where
  "queryParams f =
     (case f of None \<Rightarrow> [] | Some kvs \<Rightarrow> map (\<lambda>(k, v). (paramCase k, serialize v)) kvs)"

text \<open>
  Modelled from the spec: \<^verbatim>\<open>create<T>(endpoint, body)\<close>: a POST that expects 201.
\<close>

definition HttpClient_create ::
  "(response \<Rightarrow> error + 'a) \<Rightarrow> HttpClient \<Rightarrow> string \<Rightarrow> json \<Rightarrow> 'o world \<Rightarrow> (error + 'a) \<times> 'o world" where
  "HttpClient_create decode c ep params w =
     (case send c \<lparr>verb = POST, endpoint = ep, query = [], body = Some (Json params)\<rparr> w of
        (r, w') \<Rightarrow> (receive 201 decode r, w'))"

text \<open>
  Modelled from the spec: \<^verbatim>\<open>get<T>(endpoint, query?)\<close>: a GET that expects 200.
\<close>

definition HttpClient_get ::
  "(response \<Rightarrow> error + 'a) \<Rightarrow> HttpClient \<Rightarrow> string \<Rightarrow> filter' option \<Rightarrow> 'o world
     \<Rightarrow> (error + 'a) \<times> 'o world" where
  "HttpClient_get decode c ep f w =
     (case send c \<lparr>verb = GET, endpoint = ep, query = queryParams f, body = None\<rparr> w of
        (r, w') \<Rightarrow> (receive 200 decode r, w'))"

text \<open>
  Modelled from the spec: \<^verbatim>\<open>update<T>(endpoint, body)\<close>: a PUT that expects 200.
\<close>

definition HttpClient_update ::
  "(response \<Rightarrow> error + 'a) \<Rightarrow> HttpClient \<Rightarrow> string \<Rightarrow> json \<Rightarrow> 'o world \<Rightarrow> (error + 'a) \<times> 'o world" where
  "HttpClient_update decode c ep params w =
     (case send c \<lparr>verb = PUT, endpoint = ep, query = [], body = Some (Json params)\<rparr> w of
        (r, w') \<Rightarrow> (receive 200 decode r, w'))"

text \<open>
  Modelled from the spec: \<^verbatim>\<open>delete(endpoint)\<close>: a DELETE that expects 204; any other
  status is an error.
\<close>

definition HttpClient_delete :: "HttpClient \<Rightarrow> string \<Rightarrow> 'o world \<Rightarrow> (error + unit) \<times> 'o world" where
  "HttpClient_delete c ep w =
     (case send c \<lparr>verb = DELETE, endpoint = ep, query = [], body = None\<rparr> w of
        (r, w') \<Rightarrow> (receive 204 as_void r, w'))"

section \<open>The namespace AppImpl and the methods of App\<close>

definition APPS_EP :: string where
  "APPS_EP = ''apps''"

definition endpointForId :: "AppId \<Rightarrow> string" where
  "endpointForId i = APPS_EP @ ''/'' @ i"

text \<open>
  \<^verbatim>\<open>.then((podApp) => new App(client, podApp))\<close>: on success the object is allocated, on
  failure the error passes through.
\<close>

definition then_new_App ::
  "DateParser \<Rightarrow> HttpClient \<Rightarrow> (error + PODApp) \<times> App world \<Rightarrow> (error + ref) \<times> App world" where
  "then_new_App parse c rw =
     (case rw of
        (Inl e, w) \<Rightarrow> (Inl e, w)
      | (Inr podApp, w) \<Rightarrow> (case App_new parse c podApp w of (a, w') \<Rightarrow> (Inr a, w')))"

definition AppImpl_create ::
  "DateParser \<Rightarrow> HttpClient \<Rightarrow> AppCreateParams \<Rightarrow> App world \<Rightarrow> (error + ref) \<times> App world" where
  "AppImpl_create parse c params w =
     then_new_App parse c (HttpClient_create as_PODApp c APPS_EP params w)"

definition AppImpl_get ::
  "DateParser \<Rightarrow> HttpClient \<Rightarrow> AppId \<Rightarrow> App world \<Rightarrow> (error + ref) \<times> App world" where
  "AppImpl_get parse c i w =
     then_new_App parse c (HttpClient_get as_PODApp c (endpointForId i) None w)"

text \<open>
  \<^verbatim>\<open>podPage.results.map((podApp) => new App(client, podApp))\<close>: the objects are allocated
  from the first result to the last.
\<close>

fun map_new_App ::
  "DateParser \<Rightarrow> HttpClient \<Rightarrow> PODApp list \<Rightarrow> App world \<Rightarrow> ref list \<times> App world" where
  "map_new_App parse c [] w = ([], w)"
| "map_new_App parse c (podApp # pods) w =
     (case App_new parse c podApp w of
        (a, w') \<Rightarrow> (case map_new_App parse c pods w' of (as, w'') \<Rightarrow> (a # as, w'')))"

definition AppImpl_list ::
  "DateParser \<Rightarrow> HttpClient \<Rightarrow> filter' option \<Rightarrow> App world \<Rightarrow> (error + ref Page) \<times> App world" where
  "AppImpl_list parse c f w =
     (case HttpClient_get as_PODApp_Page c APPS_EP f w of
        (Inl e, w') \<Rightarrow> (Inl e, w')
      | (Inr podPage, w') \<Rightarrow>
          (case map_new_App parse c (results podPage) w' of
             (rs, w'') \<Rightarrow>
               (Inr \<lparr>results = rs, nextPageToken = nextPageToken podPage\<rparr>, w'')))"

definition AppImpl_update ::
  "DateParser \<Rightarrow> HttpClient \<Rightarrow> AppId \<Rightarrow> AppUpdateParams \<Rightarrow> App world \<Rightarrow> (error + ref) \<times> App world" where
  "AppImpl_update parse c i params w =
     then_new_App parse c (HttpClient_update as_PODApp c (endpointForId i) params w)"

text \<open>\<^verbatim>\<open>AppImpl.delete_\<close> of the source.\<close>

definition AppImpl_delete :: "HttpClient \<Rightarrow> AppId \<Rightarrow> App world \<Rightarrow> (error + unit) \<times> App world" where
  "AppImpl_delete c i w = HttpClient_delete c (endpointForId i) w"

text \<open>
  The methods of an \<^verbatim>\<open>App\<close>; \<open>this\<close> is the reference of the receiver.
  \<^verbatim>\<open>update\<close> copies the fields of the object \<^verbatim>\<open>AppImpl.update\<close> returned into the receiver
  and returns the receiver.
\<close>

definition App_update ::
  "DateParser \<Rightarrow> ref \<Rightarrow> AppUpdateParams \<Rightarrow> App world \<Rightarrow> (error + ref) \<times> App world" where
  "App_update parse this params w =
     (case AppImpl_update parse (client (heap w ! this)) (id' (heap w ! this)) params w of
        (Inl e, w') \<Rightarrow> (Inl e, w')
      | (Inr a, w') \<Rightarrow>
          (Inr this,
           w'\<lparr>heap := (heap w')[this := Object_assign (heap w' ! this) (heap w' ! a)]\<rparr>))"

definition App_delete :: "ref \<Rightarrow> App world \<Rightarrow> (error + unit) \<times> App world" where
  "App_delete this w = AppImpl_delete (client (heap w ! this)) (id' (heap w ! this)) w"

section \<open>The namespace AppImpl and the methods of App in the second module\<close>

text \<open>
  The second module of \<^verbatim>\<open>part_000\<close> has the same operations over its own \<^verbatim>\<open>App\<close> and its
  own endpoint constants, which are rooted with a slash.
\<close>

definition APPS_EP_v2 :: string where
  "APPS_EP_v2 = ''/apps''"

definition endpointForId_v2 :: "AppId \<Rightarrow> string" where
  "endpointForId_v2 i = ''/apps/'' @ i"

text \<open>
  Modelled from the spec: the decoders for \<^verbatim>\<open>PODApp\<close> and \<^verbatim>\<open>Page<PODApp>\<close> of the second
  module, type arguments of the generic methods of the transport.
\<close>

definition as_PODApp_v2 :: "response \<Rightarrow> error + PODApp_v2" where
  "as_PODApp_v2 r =
     (case payload r of AppJson_v2 pod \<Rightarrow> Inr pod | _ \<Rightarrow> Inl (ContractViolation r))"

text \<open>Modelled from the spec: the decoder for \<^verbatim>\<open>Page<PODApp>\<close> of the second module.\<close>

definition as_PODApp_v2_Page :: "response \<Rightarrow> error + PODApp_v2 Page" where
  "as_PODApp_v2_Page r =
     (case payload r of AppPageJson_v2 page \<Rightarrow> Inr page | _ \<Rightarrow> Inl (ContractViolation r))"

definition App_v2_new ::
  "DateParser \<Rightarrow> HttpClient \<Rightarrow> PODApp_v2 \<Rightarrow> App_v2 world \<Rightarrow> ref \<times> App_v2 world" where
  "App_v2_new parse c pod w =
     (length (heap w), w\<lparr>heap := heap w @ [App_v2_constructor parse c pod]\<rparr>)"

definition then_new_App_v2 ::
  "DateParser \<Rightarrow> HttpClient \<Rightarrow> (error + PODApp_v2) \<times> App_v2 world
     \<Rightarrow> (error + ref) \<times> App_v2 world" where
  "then_new_App_v2 parse c rw =
     (case rw of
        (Inl e, w) \<Rightarrow> (Inl e, w)
      | (Inr podApp, w) \<Rightarrow> (case App_v2_new parse c podApp w of (a, w') \<Rightarrow> (Inr a, w')))"

definition AppImpl_v2_create ::
  "DateParser \<Rightarrow> HttpClient \<Rightarrow> AppCreateParams \<Rightarrow> App_v2 world
     \<Rightarrow> (error + ref) \<times> App_v2 world" where
  "AppImpl_v2_create parse c params w =
     then_new_App_v2 parse c (HttpClient_create as_PODApp_v2 c APPS_EP_v2 params w)"

definition AppImpl_v2_get ::
  "DateParser \<Rightarrow> HttpClient \<Rightarrow> AppId \<Rightarrow> App_v2 world \<Rightarrow> (error + ref) \<times> App_v2 world" where
  "AppImpl_v2_get parse c i w =
     then_new_App_v2 parse c (HttpClient_get as_PODApp_v2 c (endpointForId_v2 i) None w)"

fun map_new_App_v2 ::
  "DateParser \<Rightarrow> HttpClient \<Rightarrow> PODApp_v2 list \<Rightarrow> App_v2 world \<Rightarrow> ref list \<times> App_v2 world" where
  "map_new_App_v2 parse c [] w = ([], w)"
| "map_new_App_v2 parse c (podApp # pods) w =
     (case App_v2_new parse c podApp w of
        (a, w') \<Rightarrow> (case map_new_App_v2 parse c pods w' of (as, w'') \<Rightarrow> (a # as, w'')))"

definition AppImpl_v2_list ::
  "DateParser \<Rightarrow> HttpClient \<Rightarrow> filter' option \<Rightarrow> App_v2 world
     \<Rightarrow> (error + ref Page) \<times> App_v2 world" where
  "AppImpl_v2_list parse c f w =
     (case HttpClient_get as_PODApp_v2_Page c APPS_EP_v2 f w of
        (Inl e, w') \<Rightarrow> (Inl e, w')
      | (Inr podPage, w') \<Rightarrow>
          (case map_new_App_v2 parse c (results podPage) w' of
             (rs, w'') \<Rightarrow>
               (Inr \<lparr>results = rs, nextPageToken = nextPageToken podPage\<rparr>, w'')))"

definition AppImpl_v2_update ::
  "DateParser \<Rightarrow> HttpClient \<Rightarrow> AppId \<Rightarrow> AppUpdateParams \<Rightarrow> App_v2 world
     \<Rightarrow> (error + ref) \<times> App_v2 world" where
  "AppImpl_v2_update parse c i params w =
     then_new_App_v2 parse c (HttpClient_update as_PODApp_v2 c (endpointForId_v2 i) params w)"

definition AppImpl_v2_delete ::
  "HttpClient \<Rightarrow> AppId \<Rightarrow> App_v2 world \<Rightarrow> (error + unit) \<times> App_v2 world" where
  "AppImpl_v2_delete c i w = HttpClient_delete c (endpointForId_v2 i) w"

definition App_v2_update ::
  "DateParser \<Rightarrow> ref \<Rightarrow> AppUpdateParams \<Rightarrow> App_v2 world \<Rightarrow> (error + ref) \<times> App_v2 world" where
  "App_v2_update parse this params w =
     (case AppImpl_v2_update parse (App_v2.client (heap w ! this)) (App_v2.id' (heap w ! this))
             params w of
        (Inl e, w') \<Rightarrow> (Inl e, w')
      | (Inr a, w') \<Rightarrow>
          (Inr this,
           w'\<lparr>heap := (heap w')[this := Object_assign_v2 (heap w' ! this) (heap w' ! a)]\<rparr>))"

definition App_v2_delete :: "ref \<Rightarrow> App_v2 world \<Rightarrow> (error + unit) \<times> App_v2 world" where
  "App_v2_delete this w =
     AppImpl_v2_delete (App_v2.client (heap w ! this)) (App_v2.id' (heap w ! this)) w"

section \<open>Streaming upload and download of datasets\<close>

text \<open>
  \<^verbatim>\<open>uploadDataset\<close>, \<^verbatim>\<open>downloadDataset\<close> and the streaming methods of the transport are in
  \<^verbatim>\<open>dataset.ts\<close> and \<^verbatim>\<open>http.ts\<close>, which are not among the sources.
\<close>

text \<open>
  Modelled from the spec: the collection endpoint of datasets, after the pattern
  \<^verbatim>\<open>/{resource-plural}\<close>.
\<close>

definition DATASETS_EP :: string where
  "DATASETS_EP = ''/datasets''"

text \<open>
  Modelled from the spec: the parts of an upload. One part named \<^verbatim>\<open>metadata\<close>,
  JSON-encoded, included only if metadata was supplied, and one part named \<^verbatim>\<open>data\<close>, the
  byte payload, declared as binary. The unit test \<^verbatim>\<open>upload / with params\<close> shows the
  JSON of the metadata part: an object with the one key \<^verbatim>\<open>metadata\<close>.
\<close>

definition uploadParts :: "string \<Rightarrow> DatasetUploadParams option \<Rightarrow> part list" where
  "uploadParts data params =
     (case params of
        None \<Rightarrow> []
      | Some p \<Rightarrow>
          (case DatasetUploadParams.metadata p of
             None \<Rightarrow> []
           | Some m \<Rightarrow>
               [\<lparr>partName = ''metadata'', contentType = ''application/json'',
                 content = JsonContent (JObj [(''metadata'', m)])\<rparr>]))
     @ [\<lparr>partName = ''data'', contentType = ''application/octet-stream'',
          content = BinaryContent data\<rparr>]"

text \<open>
  Modelled from the spec: the decoder for \<^verbatim>\<open>PODDataset\<close>.
\<close>

definition as_PODDataset :: "response \<Rightarrow> error + PODDataset" where
  "as_PODDataset r =
     (case payload r of DatasetJson pod \<Rightarrow> Inr pod | _ \<Rightarrow> Inl (ContractViolation r))"

text \<open>
  Modelled from the spec: \<^verbatim>\<open>streamUpload<T>(endpoint, parts[])\<close>: a multipart POST
  that expects a 2xx status.
\<close>

definition HttpClient_streamUpload ::
  "(response \<Rightarrow> error + 'a) \<Rightarrow> HttpClient \<Rightarrow> string \<Rightarrow> part list \<Rightarrow> 'o world
     \<Rightarrow> (error + 'a) \<times> 'o world" where
  "HttpClient_streamUpload decode c ep parts w =
     (case send c \<lparr>verb = POST, endpoint = ep, query = [], body = Some (Multipart parts)\<rparr> w of
        (r, w') \<Rightarrow>
          (if 200 \<le> status r \<and> status r < 300 then decode r else Inl (RequestError r), w'))"

text \<open>
  Modelled from the spec: \<^verbatim>\<open>uploadDataset(data, params?)\<close>, awaited to its end: the
  result of the handle is the Dataset built from the response, and a failure of the
  transport fails the handle.
\<close>

definition uploadDataset ::
  "DateParser \<Rightarrow> HttpClient \<Rightarrow> string \<Rightarrow> DatasetUploadParams option \<Rightarrow> 'o world
     \<Rightarrow> (error + Dataset) \<times> 'o world" where
  "uploadDataset parse c data params w =
     (case HttpClient_streamUpload as_PODDataset c DATASETS_EP (uploadParts data params) w of
        (Inl e, w') \<Rightarrow> (Inl e, w')
      | (Inr pod, w') \<Rightarrow> (Inr (Dataset_constructor parse c pod), w'))"

text \<open>Modelled from the spec: the decoder for \<^verbatim>\<open>Page<PODDataset>\<close>.\<close>

definition as_PODDataset_Page :: "response \<Rightarrow> error + PODDataset Page" where
  "as_PODDataset_Page r =
     (case payload r of DatasetPageJson page \<Rightarrow> Inr page | _ \<Rightarrow> Inl (ContractViolation r))"

text \<open>
  Modelled from the spec: \<^verbatim>\<open>list\<close> for datasets (\<^verbatim>\<open>listDatasets\<close>): a GET of the collection
  endpoint with the filter as query parameters; the page holds the Datasets built from
  the results, in the order of the server.
\<close>

definition listDatasets ::
  "DateParser \<Rightarrow> HttpClient \<Rightarrow> filter' option \<Rightarrow> 'o world
     \<Rightarrow> (error + Dataset Page) \<times> 'o world" where
  "listDatasets parse c f w =
     (case HttpClient_get as_PODDataset_Page c DATASETS_EP f w of
        (Inl e, w') \<Rightarrow> (Inl e, w')
      | (Inr podPage, w') \<Rightarrow>
          (Inr \<lparr>results = map (Dataset_constructor parse c) (results podPage),
                 nextPageToken = nextPageToken podPage\<rparr>, w'))"

text \<open>
  Modelled from the spec: streaming a body into a destination sink. The body goes to
  the sink chunk by chunk, each after the sink has acknowledged the one before; a chunk
  the sink reports as failed ends the stream with the sink's error. A sink is the
  function behind its \<^verbatim>\<open>_write\<close>, from a chunk and the sink's state to the error it reports,
  if any, and its next state. \<open>pipe\<close> returns the result, the sink's state and the
  chunks it handed to the sink.
\<close>

fun pipe ::
  "(string \<Rightarrow> 's \<Rightarrow> error option \<times> 's) \<Rightarrow> string list \<Rightarrow> 's
     \<Rightarrow> (error + unit) \<times> 's \<times> string list" where
  "pipe sink [] s = (Inr (), s, [])"
| "pipe sink (chunk # chunks) s =
     (case sink chunk s of
        (Some e, s') \<Rightarrow> (Inl e, s', [chunk])
      | (None, s') \<Rightarrow>
          (case pipe sink chunks s' of (r, s'', handed) \<Rightarrow> (r, s'', chunk # handed)))"

text \<open>
  Modelled from the spec: the decoder for an \<^verbatim>\<open>application/octet-stream\<close> body, the
  chunks of the byte stream.
\<close>

definition as_Bytes :: "response \<Rightarrow> error + string list" where
  "as_Bytes r = (case payload r of Bytes chunks \<Rightarrow> Inr chunks | _ \<Rightarrow> Inl (ContractViolation r))"

text \<open>
  Modelled from the spec: the download handle: the transport and the endpoint it will
  read from.
\<close>

datatype Download = Download HttpClient string

text \<open>
  Modelled from the spec: \<^verbatim>\<open>downloadDataset(id)\<close> returns the handle for the download
  endpoint of the dataset, nested under its item endpoint.
\<close>

definition downloadDataset :: "HttpClient \<Rightarrow> ResourceId \<Rightarrow> Download" where
  "downloadDataset c i = Download c (DATASETS_EP @ ''/'' @ i @ ''/download'')"

text \<open>
  Modelled from the spec: \<^verbatim>\<open>pipeTo(destinationSink)\<close>. \<^verbatim>\<open>streamDownload\<close> expects 200
  and fails before the first byte otherwise; the body is then piped into the sink.
\<close>

fun Download_pipeTo ::
  "Download \<Rightarrow> (string \<Rightarrow> 's \<Rightarrow> error option \<times> 's) \<Rightarrow> 's \<Rightarrow> 'o world
     \<Rightarrow> ((error + unit) \<times> 's \<times> string list) \<times> 'o world" where
  "Download_pipeTo (Download c ep) sink s w =
     (case send c \<lparr>verb = GET, endpoint = ep, query = [], body = None\<rparr> w of
        (r, w') \<Rightarrow>
          (case receive 200 as_Bytes r of
             Inl e \<Rightarrow> ((Inl e, s, []), w')
           | Inr chunks \<Rightarrow> (pipe sink chunks s, w')))"

section \<open>Example values\<close>

text \<open>
  A snapshot in which the optional \<^verbatim>\<open>invites\<close> is absent, a snapshot the gateway may
  answer an update with, and gateways that answer every request alike.
\<close>

definition examplePod :: PODApp where
  "examplePod =
     \<lparr> PODModel.id' = ''a1'',
       PODModel.createdAt = ''2021-03-04T05:06:07.000Z'',
       PODApp.acceptanceText = Some ''thanks for the data!'',
       PODApp.admins = [''i1''],
       PODApp.allowUserUploads = True,
       PODApp.brandingColor = Some ''#abcdef'',
       PODApp.category = Some ''testing'',
       PODApp.collaborators = [''i2'', ''i3''],
       PODApp.extendedDescription = Some ''looooong description'',
       PODApp.homepageUrl = ''https://friendly.app'',
       PODApp.invitationText = Some ''plz give data'',
       PODApp.inviteOnly = True,
       PODApp.invites = None,
       PODApp.logoUrl = ''https://logos.images'',
       PODApp.name = ''test app'',
       PODApp.organization = ''Oasis Labs'',
       PODApp.owner = ''i0'',
       PODApp.participants = [],
       PODApp.published = False,
       PODApp.rejectionText = None,
       PODApp.shortDescription = ''shrt dscrptn'',
       PODApp.termsAndConditions = ''https://friendly.app/terms'',
       PODApp.privacyPolicy = ''https://friendly.app/privacy'',
       PODApp.trusted = False \<rparr>"

definition updatedPod :: PODApp where
  "updatedPod =
     examplePod\<lparr> PODApp.published := True, PODApp.name := ''new name'',
       PODApp.acceptanceText := None, PODApp.invites := Some [''i4''] \<rparr>"

definition exampleParse :: DateParser where
  "exampleParse s = (if s = ''2021-03-04T05:06:07.000Z'' then Some 1614834367000 else None)"

definition answering :: "nat \<Rightarrow> payload \<Rightarrow> HttpClient" where
  "answering code p = HttpClient (\<lambda>history rq. \<lparr>status = code, payload = p\<rparr>)"

definition emptyWorld :: "App world" where
  "emptyWorld = \<lparr>heap = [], sent = []\<rparr>"

definition oneAppWorld :: "HttpClient \<Rightarrow> App world" where
  "oneAppWorld c = \<lparr>heap = [App_constructor exampleParse c examplePod], sent = []\<rparr>"

definition examplePage :: "PODApp Page" where
  "examplePage = \<lparr>results = [examplePod, updatedPod], nextPageToken = Some ''token-1''\<rparr>"

definition exampleDataset :: PODDataset where
  "exampleDataset =
     \<lparr> PODModel.id' = ''d1'',
       PODModel.createdAt = ''2021-03-04T05:06:07.000Z'',
       PODDataset.creator = ''i0'',
       PODDataset.owner = ''i1'',
       PODDataset.metadata = Some (JObj [(''tags'', JArr [JStr ''mock'', JStr ''dataset''])]) \<rparr>"

definition exampleDatasetPage :: "PODDataset Page" where
  "exampleDatasetPage = \<lparr>results = [exampleDataset], nextPageToken = Some ''token-2''\<rparr>"

text \<open>
  The collector of the unit tests: a sink that keeps the chunks it is given, or, made
  with an error, reports that error for every chunk.
\<close>

definition DownloadCollector :: "error option \<Rightarrow> string \<Rightarrow> string list \<Rightarrow> error option \<times> string list" where
  "DownloadCollector err chunk bufs =
     (case err of Some e \<Rightarrow> (Some e, bufs) | None \<Rightarrow> (None, bufs @ [chunk]))"

section \<open>Properties of the App module\<close>

lemma Object_assign_source: "Object_assign target source = source"
  by (simp add: Object_assign_def)

lemma App_new_object:
  "heap (snd (App_new parse c pod w)) ! fst (App_new parse c pod w) = App_constructor parse c pod"
  by (simp add: App_new_def)

lemma upt_alloc: "[n ..< n + Suc k] = n # [Suc n ..< Suc n + k]"
  by (simp add: upt_conv_Cons)

lemma map_new_App_eq:
  "map_new_App parse c pods w =
     ([length (heap w) ..< length (heap w) + length pods],
      w\<lparr>heap := heap w @ map (App_constructor parse c) pods\<rparr>)"
proof (induction pods arbitrary: w)
  case Nil
  show ?case by simp
next
  case (Cons pod pods)
  have "map_new_App parse c (pod # pods) w =
          (length (heap w) # [Suc (length (heap w)) ..< Suc (length (heap w)) + length pods],
           w\<lparr>heap := heap w @ App_constructor parse c pod # map (App_constructor parse c) pods\<rparr>)"
    by (simp add: Cons.IH App_new_def)
  then show ?case
    by (simp only: upt_alloc [symmetric] list.map length_Cons)
qed

subsection \<open>The transport, one request at a time\<close>

lemma HttpClient_create_eq:
  "HttpClient_create decode c ep params w =
     (receive 201 decode
        (gateway c (sent w) \<lparr>verb = POST, endpoint = ep, query = [], body = Some (Json params)\<rparr>),
      w\<lparr>sent := sent w @ [\<lparr>verb = POST, endpoint = ep, query = [], body = Some (Json params)\<rparr>]\<rparr>)"
  by (simp add: HttpClient_create_def send_def)

lemma HttpClient_get_eq:
  "HttpClient_get decode c ep f w =
     (receive 200 decode
        (gateway c (sent w) \<lparr>verb = GET, endpoint = ep, query = queryParams f, body = None\<rparr>),
      w\<lparr>sent := sent w @ [\<lparr>verb = GET, endpoint = ep, query = queryParams f, body = None\<rparr>]\<rparr>)"
  by (simp add: HttpClient_get_def send_def)

lemma HttpClient_update_eq:
  "HttpClient_update decode c ep params w =
     (receive 200 decode
        (gateway c (sent w) \<lparr>verb = PUT, endpoint = ep, query = [], body = Some (Json params)\<rparr>),
      w\<lparr>sent := sent w @ [\<lparr>verb = PUT, endpoint = ep, query = [], body = Some (Json params)\<rparr>]\<rparr>)"
  by (simp add: HttpClient_update_def send_def)

lemma HttpClient_delete_eq:
  "HttpClient_delete c ep w =
     (receive 204 as_void
        (gateway c (sent w) \<lparr>verb = DELETE, endpoint = ep, query = [], body = None\<rparr>),
      w\<lparr>sent := sent w @ [\<lparr>verb = DELETE, endpoint = ep, query = [], body = None\<rparr>]\<rparr>)"
  by (simp add: HttpClient_delete_def send_def)

lemma then_new_App_sent: "sent (snd (then_new_App parse c rw)) = sent (snd rw)"
  by (cases rw) (simp add: then_new_App_def App_new_def split: sum.splits)

lemma then_new_App_Inl: "then_new_App parse c (Inl e, w) = (Inl e, w)"
  by (simp add: then_new_App_def)

lemma then_new_App_Inr:
  "then_new_App parse c (Inr pod, w) =
     (Inr (length (heap w)), w\<lparr>heap := heap w @ [App_constructor parse c pod]\<rparr>)"
  by (simp add: then_new_App_def App_new_def)

lemma receive_as_PODApp_Inr:
  "receive code as_PODApp r = Inr pod \<longleftrightarrow> status r = code \<and> payload r = AppJson pod"
  by (auto simp: receive_def expect_def as_PODApp_def split: payload.splits)

lemma receive_as_PODApp_ok:
  "receive code as_PODApp \<lparr>status = code, payload = AppJson pod\<rparr> = Inr pod"
  by (simp add: receive_as_PODApp_Inr)

lemma receive_as_PODApp_Page_ok:
  "receive code as_PODApp_Page \<lparr>status = code, payload = AppPageJson page\<rparr> = Inr page"
  by (simp add: receive_def expect_def as_PODApp_Page_def)

lemma receive_as_void: "receive 204 as_void r = Inr u \<longleftrightarrow> status r = 204"
  by (simp add: receive_def expect_def as_void_def split: payload.splits)

lemma AppImpl_update_Inr:
  "AppImpl_update parse c i params w = (Inr a, w') \<longleftrightarrow>
     (\<exists>pod. gateway c (sent w)
               \<lparr>verb = PUT, endpoint = endpointForId i, query = [], body = Some (Json params)\<rparr>
             = \<lparr>status = 200, payload = AppJson pod\<rparr> \<and>
            a = length (heap w) \<and>
            w' = w\<lparr>sent := sent w @ [\<lparr>verb = PUT, endpoint = endpointForId i, query = [],
                                       body = Some (Json params)\<rparr>],
                   heap := heap w @ [App_constructor parse c pod]\<rparr>)"
  (is "?L \<longleftrightarrow> ?R")
proof
  let ?rq = "\<lparr>verb = PUT, endpoint = endpointForId i, query = [], body = Some (Json params)\<rparr>"
  let ?r = "gateway c (sent w) ?rq"
  assume l: ?L
  show ?R
  proof (cases "receive 200 as_PODApp ?r")
    case (Inl e)
    with l show ?thesis
      by (simp add: AppImpl_update_def HttpClient_update_eq then_new_App_Inl)
  next
    case (Inr pod)
    then have "status ?r = 200" and "payload ?r = AppJson pod"
      by (simp_all add: receive_as_PODApp_Inr)
    then have "?r = \<lparr>status = 200, payload = AppJson pod\<rparr>"
      by (cases ?r) simp
    with l Inr show ?thesis
      by (auto simp: AppImpl_update_def HttpClient_update_eq then_new_App_Inr)
  qed
next
  assume ?R
  then show ?L
    by (auto simp: AppImpl_update_def HttpClient_update_eq then_new_App_Inr receive_as_PODApp_ok)
qed

lemma AppImpl_list_ok:
  assumes "gateway c (sent w)
             \<lparr>verb = GET, endpoint = APPS_EP, query = queryParams f, body = None\<rparr>
           = \<lparr>status = 200, payload = AppPageJson podPage\<rparr>"
  shows "AppImpl_list parse c f w =
           (Inr \<lparr>results = [length (heap w) ..< length (heap w) + length (results podPage)],
                 nextPageToken = nextPageToken podPage\<rparr>,
            w\<lparr>sent := sent w @ [\<lparr>verb = GET, endpoint = APPS_EP, query = queryParams f,
                                  body = None\<rparr>],
              heap := heap w @ map (App_constructor parse c) (results podPage)\<rparr>)"
  using assms
  by (simp add: AppImpl_list_def HttpClient_get_eq receive_as_PODApp_Page_ok map_new_App_eq)

lemma AppImpl_list_sent:
  "sent (snd (AppImpl_list parse c f w)) =
     sent w @ [\<lparr>verb = GET, endpoint = APPS_EP, query = queryParams f, body = None\<rparr>]"
  by (simp add: AppImpl_list_def HttpClient_get_eq map_new_App_eq split: sum.splits)

subsection \<open>Construction\<close>

text \<open>
  Claim C2. The object that \<^verbatim>\<open>new App(client, pod)\<close> allocates carries, field for field,
  the values of the snapshot: the identifier fields hold the same strings, and
  \<^verbatim>\<open>createdAt\<close> is the date whose time value is the parse of the snapshot's timestamp
  string.
\<close>

theorem App_round_trip:
  "(let a = heap (snd (App_new parse c pod w)) ! fst (App_new parse c pod w) in
      App.id' a = PODModel.id' pod \<and>
      getTime (App.createdAt a) = parse (PODModel.createdAt pod) \<and>
      App.owner a = PODApp.owner pod \<and>
      App.admins a = PODApp.admins pod \<and>
      App.collaborators a = PODApp.collaborators pod \<and>
      App.published a = PODApp.published pod \<and>
      App.inviteOnly a = PODApp.inviteOnly pod \<and>
      App.invites a = PODApp.invites pod \<and>
      App.participants a = PODApp.participants pod \<and>
      App.allowUserUploads a = PODApp.allowUserUploads pod \<and>
      App.name a = PODApp.name pod \<and>
      App.organization a = PODApp.organization pod \<and>
      App.shortDescription a = PODApp.shortDescription pod \<and>
      App.homepageUrl a = PODApp.homepageUrl pod \<and>
      App.logoUrl a = PODApp.logoUrl pod \<and>
      App.privacyPolicy a = PODApp.privacyPolicy pod \<and>
      App.termsAndConditions a = PODApp.termsAndConditions pod \<and>
      App.invitationText a = PODApp.invitationText pod \<and>
      App.acceptanceText a = PODApp.acceptanceText pod \<and>
      App.rejectionText a = PODApp.rejectionText pod \<and>
      App.extendedDescription a = PODApp.extendedDescription pod \<and>
      App.brandingColor a = PODApp.brandingColor pod \<and>
      App.category a = PODApp.category pod \<and>
      App.trusted a = PODApp.trusted pod)"
  by (simp add: App_new_object App_constructor_def)

text \<open>
  Claim C10. When the snapshot has no \<^verbatim>\<open>invites\<close>, the constructed object has none
  either: the constructor copies the field and supplies no empty list.
\<close>

theorem App_invites_absent:
  "PODApp.invites pod = None \<Longrightarrow>
   App.invites (heap (snd (App_new parse c pod w)) ! fst (App_new parse c pod w)) = None"
  by (simp add: App_new_object App_constructor_def)

theorem App_invites_absent_witness:
  "PODApp.invites examplePod = None \<and>
   App.invites
     (heap (snd (App_new exampleParse (answering 200 NoContent) examplePod emptyWorld)) !
        fst (App_new exampleParse (answering 200 NoContent) examplePod emptyWorld)) = None"
proof -
  have h: "PODApp.invites examplePod = None"
    by (simp add: examplePod_def)
  show ?thesis
    using h App_invites_absent [OF h, of exampleParse "answering 200 NoContent" emptyWorld]
    by simp
qed

subsection \<open>Update in place\<close>

text \<open>
  Claim C3. \<^verbatim>\<open>r.update(p)\<close> returns the reference of the receiver, and when it succeeds
  the receiver is, field for field, the object the constructor builds from the body of
  the gateway's response: nothing of the receiver's earlier fields is kept or merged.
  With an answer 200 carrying an App snapshot the update does succeed.
\<close>

theorem App_update_in_place:
  assumes "this < length (heap w)"
  shows "(\<forall>r w'. App_update parse this params w = (Inr r, w') \<longrightarrow>
            r = this \<and>
            (\<exists>pod. gateway (client (heap w ! this)) (sent w)
                       \<lparr>verb = PUT, endpoint = endpointForId (App.id' (heap w ! this)),
                        query = [], body = Some (Json params)\<rparr>
                     = \<lparr>status = 200, payload = AppJson pod\<rparr> \<and>
                   heap w' ! this = App_constructor parse (client (heap w ! this)) pod)) \<and>
         (\<forall>pod. gateway (client (heap w ! this)) (sent w)
                   \<lparr>verb = PUT, endpoint = endpointForId (App.id' (heap w ! this)),
                    query = [], body = Some (Json params)\<rparr>
                 = \<lparr>status = 200, payload = AppJson pod\<rparr> \<longrightarrow>
            fst (App_update parse this params w) = Inr this \<and>
            heap (snd (App_update parse this params w)) ! this
              = App_constructor parse (client (heap w ! this)) pod)"
proof (intro conjI allI impI)
  fix r w'
  assume u: "App_update parse this params w = (Inr r, w')"
  then obtain a w1 where
    a: "AppImpl_update parse (client (heap w ! this)) (App.id' (heap w ! this)) params w = (Inr a, w1)"
    and r: "r = this"
    and w': "w' = w1\<lparr>heap := (heap w1)[this := Object_assign (heap w1 ! this) (heap w1 ! a)]\<rparr>"
    by (auto simp: App_update_def split: prod.splits sum.splits)
  show "r = this" by (rule r)
  from a obtain pod where
    g: "gateway (client (heap w ! this)) (sent w)
          \<lparr>verb = PUT, endpoint = endpointForId (App.id' (heap w ! this)), query = [],
           body = Some (Json params)\<rparr> = \<lparr>status = 200, payload = AppJson pod\<rparr>"
    and al: "a = length (heap w)"
    and h1: "heap w1 = heap w @ [App_constructor parse (client (heap w ! this)) pod]"
    by (auto simp: AppImpl_update_Inr)
  have "heap w' ! this = App_constructor parse (client (heap w ! this)) pod"
    using assms by (simp add: w' h1 al Object_assign_source nth_append)
  with g show "\<exists>pod. gateway (client (heap w ! this)) (sent w)
                       \<lparr>verb = PUT, endpoint = endpointForId (App.id' (heap w ! this)),
                        query = [], body = Some (Json params)\<rparr>
                     = \<lparr>status = 200, payload = AppJson pod\<rparr> \<and>
                   heap w' ! this = App_constructor parse (client (heap w ! this)) pod"
    by blast
next
  fix pod
  assume g: "gateway (client (heap w ! this)) (sent w)
          \<lparr>verb = PUT, endpoint = endpointForId (App.id' (heap w ! this)), query = [],
           body = Some (Json params)\<rparr> = \<lparr>status = 200, payload = AppJson pod\<rparr>"
  have a: "AppImpl_update parse (client (heap w ! this)) (App.id' (heap w ! this)) params w =
        (Inr (length (heap w)),
         w\<lparr>sent := sent w @ [\<lparr>verb = PUT, endpoint = endpointForId (App.id' (heap w ! this)),
                               query = [], body = Some (Json params)\<rparr>],
           heap := heap w @ [App_constructor parse (client (heap w ! this)) pod]\<rparr>)"
    using g by (auto simp: AppImpl_update_Inr)
  show "fst (App_update parse this params w) = Inr this"
    by (simp add: App_update_def a)
  show "heap (snd (App_update parse this params w)) ! this
              = App_constructor parse (client (heap w ! this)) pod"
    using assms by (simp add: App_update_def a Object_assign_source nth_append)
qed

theorem App_update_in_place_witness:
  "0 < length (heap (oneAppWorld (answering 200 (AppJson updatedPod)))) \<and>
   fst (App_update exampleParse 0 (JObj [(''published'', JBool True)])
          (oneAppWorld (answering 200 (AppJson updatedPod)))) = Inr 0 \<and>
   heap (snd (App_update exampleParse 0 (JObj [(''published'', JBool True)])
          (oneAppWorld (answering 200 (AppJson updatedPod))))) ! 0 =
     App_constructor exampleParse (answering 200 (AppJson updatedPod)) updatedPod"
proof -
  let ?c = "answering 200 (AppJson updatedPod)"
  have h: "0 < length (heap (oneAppWorld ?c))"
    by (simp add: oneAppWorld_def)
  have c: "client (heap (oneAppWorld ?c) ! 0) = ?c"
    by (simp add: oneAppWorld_def App_constructor_def)
  have g: "gateway (client (heap (oneAppWorld ?c) ! 0)) (sent (oneAppWorld ?c))
                   \<lparr>verb = PUT, endpoint = endpointForId (App.id' (heap (oneAppWorld ?c) ! 0)),
                    query = [], body = Some (Json (JObj [(''published'', JBool True)]))\<rparr>
                 = \<lparr>status = 200, payload = AppJson updatedPod\<rparr>"
    unfolding c by (simp add: answering_def)
  from App_update_in_place [OF h, of exampleParse "JObj [(''published'', JBool True)]"] g
  have "fst (App_update exampleParse 0 (JObj [(''published'', JBool True)]) (oneAppWorld ?c)) = Inr 0 \<and>
        heap (snd (App_update exampleParse 0 (JObj [(''published'', JBool True)]) (oneAppWorld ?c))) ! 0
          = App_constructor exampleParse (client (heap (oneAppWorld ?c) ! 0)) updatedPod"
    by blast
  then show ?thesis
    using h unfolding c by simp
qed

subsection \<open>Listing\<close>

text \<open>
  Claim C4. When the gateway answers the list request with a page of \<open>N\<close> snapshots and
  a token, \<^verbatim>\<open>AppImpl.list\<close> returns a page of \<open>N\<close> objects, the \<open>i\<close>-th built from the
  \<open>i\<close>-th snapshot, with the token as the gateway sent it; no results give the empty
  sequence and no token gives an absent \<^verbatim>\<open>nextPageToken\<close>.
\<close>

theorem AppImpl_list_page:
  assumes "gateway c (sent w)
             \<lparr>verb = GET, endpoint = APPS_EP, query = queryParams f, body = None\<rparr>
           = \<lparr>status = 200, payload = AppPageJson podPage\<rparr>"
  shows "\<exists>page w'. AppImpl_list parse c f w = (Inr page, w') \<and>
           length (results page) = length (results podPage) \<and>
           (\<forall>i < length (results podPage).
              heap w' ! (results page ! i) = App_constructor parse c (results podPage ! i)) \<and>
           distinct (results page) \<and>
           nextPageToken page = nextPageToken podPage \<and>
           (results podPage = [] \<longrightarrow> results page = []) \<and>
           (nextPageToken podPage = None \<longrightarrow> nextPageToken page = None)"
  by (simp add: AppImpl_list_ok [OF assms] nth_append)

theorem AppImpl_list_page_witness:
  "gateway (answering 200 (AppPageJson examplePage)) (sent emptyWorld)
     \<lparr>verb = GET, endpoint = APPS_EP, query = queryParams None, body = None\<rparr>
     = \<lparr>status = 200, payload = AppPageJson examplePage\<rparr> \<and>
   (\<exists>page w'. AppImpl_list exampleParse (answering 200 (AppPageJson examplePage)) None emptyWorld
                 = (Inr page, w') \<and>
       length (results page) = 2 \<and>
       heap w' ! (results page ! 1)
         = App_constructor exampleParse (answering 200 (AppPageJson examplePage)) updatedPod \<and>
       nextPageToken page = Some ''token-1'')"
proof -
  let ?c = "answering 200 (AppPageJson examplePage)"
  have h: "gateway ?c (sent emptyWorld)
     \<lparr>verb = GET, endpoint = APPS_EP, query = queryParams None, body = None\<rparr>
     = \<lparr>status = 200, payload = AppPageJson examplePage\<rparr>"
    by (simp add: answering_def)
  from AppImpl_list_page [OF h, of exampleParse] obtain page w' where
    p: "AppImpl_list exampleParse ?c None emptyWorld = (Inr page, w')"
    and l: "length (results page) = length (results examplePage)"
    and n: "\<forall>i < length (results examplePage).
              heap w' ! (results page ! i) = App_constructor exampleParse ?c (results examplePage ! i)"
    and t: "nextPageToken page = nextPageToken examplePage"
    by blast
  from n have "heap w' ! (results page ! 1) = App_constructor exampleParse ?c updatedPod"
    by (simp add: examplePage_def)
  with p l t h show ?thesis
    by (simp add: examplePage_def)
qed

subsection \<open>Endpoints\<close>

text \<open>The second module allocates and logs as the first does.\<close>

lemma then_new_App_v2_sent: "sent (snd (then_new_App_v2 parse c rw)) = sent (snd rw)"
  by (cases rw) (simp add: then_new_App_v2_def App_v2_new_def split: sum.splits)

lemma map_new_App_v2_eq:
  "map_new_App_v2 parse c pods w =
     ([length (heap w) ..< length (heap w) + length pods],
      w\<lparr>heap := heap w @ map (App_v2_constructor parse c) pods\<rparr>)"
proof (induction pods arbitrary: w)
  case Nil
  show ?case by simp
next
  case (Cons pod pods)
  have "map_new_App_v2 parse c (pod # pods) w =
          (length (heap w) # [Suc (length (heap w)) ..< Suc (length (heap w)) + length pods],
           w\<lparr>heap := heap w @ App_v2_constructor parse c pod
                          # map (App_v2_constructor parse c) pods\<rparr>)"
    by (simp add: Cons.IH App_v2_new_def)
  then show ?case
    by (simp only: upt_alloc [symmetric] list.map length_Cons)
qed

lemma AppImpl_v2_list_sent:
  "sent (snd (AppImpl_v2_list parse c f w)) =
     sent w @ [\<lparr>verb = GET, endpoint = APPS_EP_v2, query = queryParams f, body = None\<rparr>]"
  by (simp add: AppImpl_v2_list_def HttpClient_get_eq map_new_App_v2_eq split: sum.splits)

text \<open>
  Claim C8, as amended. In the first module \<^verbatim>\<open>create\<close> and \<^verbatim>\<open>list\<close> send their request to
  \<^verbatim>\<open>apps\<close> and \<^verbatim>\<open>get\<close>, \<^verbatim>\<open>update\<close> and \<^verbatim>\<open>delete\<close> for the identifier \<open>i\<close> to \<^verbatim>\<open>apps/i\<close>: the
  plural path without a leading slash, the identifier after one slash. In the second
  module \<^verbatim>\<open>create\<close> and \<^verbatim>\<open>list\<close> send their request to \<^verbatim>\<open>/apps\<close> and \<^verbatim>\<open>get\<close>, \<^verbatim>\<open>update\<close> and
  \<^verbatim>\<open>delete\<close> for the identifier \<open>i\<close> to \<^verbatim>\<open>/apps/i\<close>.
\<close>

theorem App_endpoints:
  "sent (snd (AppImpl_create parse c params w)) =
     sent w @ [\<lparr>verb = POST, endpoint = ''apps'', query = [], body = Some (Json params)\<rparr>] \<and>
   sent (snd (AppImpl_list parse c f w)) =
     sent w @ [\<lparr>verb = GET, endpoint = ''apps'', query = queryParams f, body = None\<rparr>] \<and>
   sent (snd (AppImpl_get parse c i w)) =
     sent w @ [\<lparr>verb = GET, endpoint = ''apps/'' @ i, query = [], body = None\<rparr>] \<and>
   sent (snd (AppImpl_update parse c i params w)) =
     sent w @ [\<lparr>verb = PUT, endpoint = ''apps/'' @ i, query = [], body = Some (Json params)\<rparr>] \<and>
   sent (snd (AppImpl_delete c i w)) =
     sent w @ [\<lparr>verb = DELETE, endpoint = ''apps/'' @ i, query = [], body = None\<rparr>] \<and>
   sent (snd (AppImpl_v2_create parse c params v)) =
     sent v @ [\<lparr>verb = POST, endpoint = ''/apps'', query = [], body = Some (Json params)\<rparr>] \<and>
   sent (snd (AppImpl_v2_list parse c f v)) =
     sent v @ [\<lparr>verb = GET, endpoint = ''/apps'', query = queryParams f, body = None\<rparr>] \<and>
   sent (snd (AppImpl_v2_get parse c i v)) =
     sent v @ [\<lparr>verb = GET, endpoint = ''/apps/'' @ i, query = [], body = None\<rparr>] \<and>
   sent (snd (AppImpl_v2_update parse c i params v)) =
     sent v @ [\<lparr>verb = PUT, endpoint = ''/apps/'' @ i, query = [], body = Some (Json params)\<rparr>] \<and>
   sent (snd (AppImpl_v2_delete c i v)) =
     sent v @ [\<lparr>verb = DELETE, endpoint = ''/apps/'' @ i, query = [], body = None\<rparr>]"
proof -
  have l: "sent (snd (AppImpl_list parse c f w)) =
     sent w @ [\<lparr>verb = GET, endpoint = ''apps'', query = queryParams f, body = None\<rparr>]"
    by (simp add: AppImpl_list_sent APPS_EP_def)
  have l2: "sent (snd (AppImpl_v2_list parse c f v)) =
     sent v @ [\<lparr>verb = GET, endpoint = ''/apps'', query = queryParams f, body = None\<rparr>]"
    by (simp add: AppImpl_v2_list_sent APPS_EP_v2_def)
  show ?thesis
    by (simp add: l l2 AppImpl_create_def AppImpl_get_def AppImpl_update_def AppImpl_delete_def
          AppImpl_v2_create_def AppImpl_v2_get_def AppImpl_v2_update_def AppImpl_v2_delete_def
          then_new_App_sent then_new_App_v2_sent HttpClient_create_eq HttpClient_get_eq
          HttpClient_update_eq HttpClient_delete_eq APPS_EP_def endpointForId_def APPS_EP_v2_def
          endpointForId_v2_def queryParams_def)
qed

text \<open>
  Claim C8 as stated fails in the first module: the endpoint of \<^verbatim>\<open>list\<close> is not \<^verbatim>\<open>/apps\<close>,
  and the endpoint of \<^verbatim>\<open>get\<close> for the identifier \<^verbatim>\<open>a1\<close> is not \<^verbatim>\<open>/apps/a1\<close>.
\<close>

theorem App_endpoints_counterexample:
  "endpoint (last (sent (snd (AppImpl_list exampleParse (answering 200 (AppPageJson examplePage))
                            None emptyWorld)))) \<noteq> ''/apps'' \<and>
   endpoint (last (sent (snd (AppImpl_get exampleParse (answering 200 (AppJson examplePod))
                            ''a1'' emptyWorld)))) \<noteq> ''/apps/a1''"
  by (simp add: AppImpl_list_sent AppImpl_get_def then_new_App_sent HttpClient_get_eq
        APPS_EP_def endpointForId_def emptyWorld_def)

subsection \<open>Deletion\<close>

text \<open>
  Claim C9. \<^verbatim>\<open>r.delete()\<close> on an allocated object changes no object: the heap after the
  call is the heap before it, and the one effect is the DELETE request for the
  receiver's identifier.
\<close>

theorem App_delete_frame:
  "this < length (heap w) \<Longrightarrow>
   heap (snd (App_delete this w)) = heap w \<and>
   sent (snd (App_delete this w)) =
     sent w @ [\<lparr>verb = DELETE, endpoint = endpointForId (App.id' (heap w ! this)),
                query = [], body = None\<rparr>]"
  by (simp add: App_delete_def AppImpl_delete_def HttpClient_delete_eq)

theorem App_delete_frame_witness:
  "0 < length (heap (oneAppWorld (answering 204 NoContent))) \<and>
   heap (snd (App_delete 0 (oneAppWorld (answering 204 NoContent)))) =
     [App_constructor exampleParse (answering 204 NoContent) examplePod] \<and>
   sent (snd (App_delete 0 (oneAppWorld (answering 204 NoContent)))) =
     [\<lparr>verb = DELETE, endpoint = ''apps/a1'', query = [], body = None\<rparr>]"
proof -
  have h: "0 < length (heap (oneAppWorld (answering 204 NoContent)))"
    by (simp add: oneAppWorld_def)
  have i: "endpointForId (App.id' (heap (oneAppWorld (answering 204 NoContent)) ! 0)) = ''apps/a1''"
    by (simp add: oneAppWorld_def App_constructor_def examplePod_def endpointForId_def APPS_EP_def)
  from App_delete_frame [OF h] show ?thesis
    using h unfolding i by (simp add: oneAppWorld_def)
qed

text \<open>
  Claim C1. Deleting an App, through \<^verbatim>\<open>AppImpl.delete_\<close> or through the object's own
  \<^verbatim>\<open>delete\<close>, succeeds exactly when the gateway answers 204; an answer 200 is an error,
  with or without a body, and with a body it is a contract violation.
\<close>

theorem delete_only_204:
  "(fst (AppImpl_delete c i w) = Inr () \<longleftrightarrow>
      status (gateway c (sent w)
                \<lparr>verb = DELETE, endpoint = endpointForId i, query = [], body = None\<rparr>) = 204) \<and>
   (this < length (heap w) \<longrightarrow>
      (fst (App_delete this w) = Inr () \<longleftrightarrow>
         status (gateway (client (heap w ! this)) (sent w)
                   \<lparr>verb = DELETE, endpoint = endpointForId (App.id' (heap w ! this)),
                    query = [], body = None\<rparr>) = 204)) \<and>
   (status (gateway c (sent w)
              \<lparr>verb = DELETE, endpoint = endpointForId i, query = [], body = None\<rparr>) = 200 \<longrightarrow>
      (\<exists>e. fst (AppImpl_delete c i w) = Inl e) \<and>
      (payload (gateway c (sent w)
                 \<lparr>verb = DELETE, endpoint = endpointForId i, query = [], body = None\<rparr>)
         \<noteq> NoContent \<longrightarrow>
       fst (AppImpl_delete c i w) =
         Inl (ContractViolation
                (gateway c (sent w)
                   \<lparr>verb = DELETE, endpoint = endpointForId i, query = [], body = None\<rparr>))))"
  by (simp add: App_delete_def AppImpl_delete_def HttpClient_delete_eq receive_as_void)
     (simp add: receive_def expect_def split: payload.splits)

theorem delete_only_204_witness:
  "status (gateway (answering 200 (AppJson examplePod)) (sent emptyWorld)
              \<lparr>verb = DELETE, endpoint = endpointForId ''a1'', query = [], body = None\<rparr>) = 200 \<and>
   fst (AppImpl_delete (answering 200 (AppJson examplePod)) ''a1'' emptyWorld) =
     Inl (ContractViolation \<lparr>status = 200, payload = AppJson examplePod\<rparr>) \<and>
   0 < length (heap (oneAppWorld (answering 204 NoContent))) \<and>
   fst (App_delete 0 (oneAppWorld (answering 204 NoContent))) = Inr ()"
proof -
  have l: "0 < length (heap (oneAppWorld (answering 204 NoContent)))"
    by (simp add: oneAppWorld_def)
  have s: "status (gateway (client (heap (oneAppWorld (answering 204 NoContent)) ! 0))
                     (sent (oneAppWorld (answering 204 NoContent)))
                   \<lparr>verb = DELETE,
                    endpoint = endpointForId (App.id' (heap (oneAppWorld (answering 204 NoContent)) ! 0)),
                    query = [], body = None\<rparr>) = 204"
    by (simp add: oneAppWorld_def App_constructor_def answering_def)
  have d: "fst (App_delete 0 (oneAppWorld (answering 204 NoContent))) = Inr ()"
    using l s delete_only_204 [of _ _ "oneAppWorld (answering 204 NoContent)" 0]
    by blast
  have h: "status (gateway (answering 200 (AppJson examplePod)) (sent emptyWorld)
              \<lparr>verb = DELETE, endpoint = endpointForId ''a1'', query = [], body = None\<rparr>) = 200"
    by (simp add: answering_def)
  have b: "payload (gateway (answering 200 (AppJson examplePod)) (sent emptyWorld)
              \<lparr>verb = DELETE, endpoint = endpointForId ''a1'', query = [], body = None\<rparr>)
            \<noteq> NoContent"
    by (simp add: answering_def)
  from delete_only_204 [of "answering 200 (AppJson examplePod)" "''a1''" emptyWorld]
  have "fst (AppImpl_delete (answering 200 (AppJson examplePod)) ''a1'' emptyWorld) =
        Inl (ContractViolation
               (gateway (answering 200 (AppJson examplePod)) (sent emptyWorld)
                  \<lparr>verb = DELETE, endpoint = endpointForId ''a1'', query = [], body = None\<rparr>))"
    using h b by blast
  then show ?thesis
    using h l d by (simp add: answering_def)
qed

section \<open>Properties of the filter translation\<close>

lemma is_lower_not_upper: "is_lower c \<Longrightarrow> \<not> is_upper c"
  by (simp add: is_lower_def is_upper_def)

lemma is_digit_not_upper: "is_digit c \<Longrightarrow> \<not> is_upper c"
  by (simp add: is_digit_def is_upper_def)

lemma to_lower_is_lower: "is_upper c \<Longrightarrow> is_lower (to_lower c)"
  by (auto simp: to_lower_def is_upper_def is_lower_def)

lemma to_lower_alnum: "is_alnum c \<Longrightarrow> is_lower (to_lower c) \<or> is_digit (to_lower c)"
proof (cases "is_upper c")
  case True
  then show ?thesis by (simp add: to_lower_is_lower)
next
  case False
  moreover assume "is_alnum c"
  ultimately show ?thesis by (simp add: is_alnum_def to_lower_def)
qed

lemma NUL_not_alnum: "\<not> is_alnum NUL"
  by (simp add: NUL_def is_alnum_def is_upper_def is_lower_def is_digit_def)

lemma hyphen_not_alnum: "\<not> is_alnum CHR ''-''"
  by (simp add: is_alnum_def is_upper_def is_lower_def is_digit_def)

lemma strip_chars: "ch \<in> set (strip s) \<Longrightarrow> is_alnum ch \<or> ch = NUL"
  by (induction s rule: strip.induct) (auto split: if_splits)

lemma trim_subset: "set (trim s) \<subseteq> set s"
  by (auto simp: trim_def dest!: set_dropWhileD)

lemma paramCase_chars:
  "ch \<in> set (paramCase k) \<Longrightarrow> is_lower ch \<or> is_digit ch \<or> ch = CHR ''-''"
proof -
  assume "ch \<in> set (paramCase k)"
  then obtain c where c: "c \<in> set (trim (strip (split_upper (split_camel k))))"
    and ch: "ch = (if c = NUL then CHR ''-'' else to_lower c)"
    by (auto simp: paramCase_def)
  from c have "is_alnum c \<or> c = NUL"
    using trim_subset strip_chars by blast
  with ch show ?thesis
    using to_lower_alnum by auto
qed

lemma split_camel_fixed: "\<forall>ch \<in> set k. \<not> is_upper ch \<Longrightarrow> split_camel k = k"
  by (induction k rule: split_camel.induct) auto

lemma split_upper_fixed: "\<forall>ch \<in> set k. \<not> is_upper ch \<Longrightarrow> split_upper k = k"
  by (induction k rule: split_upper.induct) auto

lemma strip_fixed: "\<forall>ch \<in> set k. is_alnum ch \<Longrightarrow> strip k = k"
  by (induction k) auto

lemma dropWhile_none: "\<forall>ch \<in> set k. \<not> P ch \<Longrightarrow> dropWhile P k = k"
  by (cases k) auto

lemma trim_fixed: "NUL \<notin> set k \<Longrightarrow> trim k = k"
proof -
  assume n: "NUL \<notin> set k"
  then have "dropWhile (\<lambda>c. c = NUL) k = k"
    by (intro dropWhile_none) auto
  moreover from n have "dropWhile (\<lambda>c. c = NUL) (rev k) = rev k"
    by (intro dropWhile_none) auto
  ultimately show ?thesis
    by (simp add: trim_def)
qed

lemma paramCase_fixed:
  assumes "\<forall>ch \<in> set k. is_lower ch \<or> is_digit ch"
  shows "paramCase k = k"
proof -
  from assms have u: "\<forall>ch \<in> set k. \<not> is_upper ch"
    using is_lower_not_upper is_digit_not_upper by blast
  from assms have a: "\<forall>ch \<in> set k. is_alnum ch"
    by (auto simp: is_alnum_def)
  then have n: "NUL \<notin> set k"
    using NUL_not_alnum by blast
  have "trim (strip (split_upper (split_camel k))) = k"
    by (simp add: split_camel_fixed [OF u] split_upper_fixed [OF u] strip_fixed [OF a]
          trim_fixed [OF n])
  then have "paramCase k = map (\<lambda>c. if c = NUL then CHR ''-'' else to_lower c) k"
    by (simp add: paramCase_def)
  also have "\<dots> = map (\<lambda>c. c) k"
    using u n by (intro map_cong) (auto simp: to_lower_def)
  finally show ?thesis by simp
qed

lemma trim_hd: "trim s \<noteq> [] \<Longrightarrow> hd (trim s) \<noteq> NUL"
proof -
  assume ne: "trim s \<noteq> []"
  let ?t = "dropWhile (\<lambda>c. c = NUL) s"
  have t: "?t \<noteq> []"
  proof
    assume e: "?t = []"
    have "trim s = rev (dropWhile (\<lambda>c. c = NUL) (rev ?t))"
      by (simp only: trim_def)
    also have "\<dots> = []"
      unfolding e by simp
    finally show False using ne by simp
  qed
  then have h: "hd ?t \<noteq> NUL"
    using hd_dropWhile [of "\<lambda>c. c = NUL" s] by simp
  have "trim s = rev (dropWhile (\<lambda>c. c = NUL) (rev ?t))"
    by (simp add: trim_def)
  moreover have "rev (dropWhile (\<lambda>c. c = NUL) (rev ?t)) @ rev (takeWhile (\<lambda>c. c = NUL) (rev ?t)) = ?t"
    by (metis rev_append rev_rev_ident takeWhile_dropWhile_id)
  ultimately have "trim s @ rev (takeWhile (\<lambda>c. c = NUL) (rev ?t)) = ?t"
    by simp
  with ne have "hd (trim s) = hd ?t"
    by (metis hd_append2)
  with h show ?thesis by simp
qed

lemma trim_last: "trim s \<noteq> [] \<Longrightarrow> last (trim s) \<noteq> NUL"
proof -
  assume ne: "trim s \<noteq> []"
  let ?d = "dropWhile (\<lambda>c. c = NUL) (rev (dropWhile (\<lambda>c. c = NUL) s))"
  from ne have d: "?d \<noteq> []"
    by (simp add: trim_def)
  then have "hd ?d \<noteq> NUL"
    using hd_dropWhile [of "\<lambda>c. c = NUL" "rev (dropWhile (\<lambda>c. c = NUL) s)"] by simp
  moreover have "last (trim s) = hd ?d"
    using d by (simp add: trim_def last_rev)
  ultimately show ?thesis by simp
qed

lemma paramCase_ends:
  assumes "paramCase k \<noteq> []"
  shows "hd (paramCase k) \<noteq> CHR ''-'' \<and> last (paramCase k) \<noteq> CHR ''-''"
proof -
  let ?t = "trim (strip (split_upper (split_camel k)))"
  let ?f = "\<lambda>c. if c = NUL then CHR ''-'' else to_lower c"
  from assms have ne: "?t \<noteq> []"
    by (auto simp: paramCase_def)
  have f: "?f c \<noteq> CHR ''-''" if "c \<in> set ?t" "c \<noteq> NUL" for c
  proof -
    from that have "is_alnum c"
      using trim_subset strip_chars by blast
    then have "is_lower (to_lower c) \<or> is_digit (to_lower c)"
      by (rule to_lower_alnum)
    then have "to_lower c \<noteq> CHR ''-''"
      by (auto simp: is_lower_def is_digit_def)
    with that show ?thesis by simp
  qed
  have "hd (paramCase k) = ?f (hd ?t)" "last (paramCase k) = ?f (last ?t)"
    using ne by (simp_all add: paramCase_def hd_map last_map)
  moreover have "hd ?t \<in> set ?t" "last ?t \<in> set ?t"
    using ne by simp_all
  moreover have "hd ?t \<noteq> NUL" "last ?t \<noteq> NUL"
    using ne trim_hd trim_last by blast+
  ultimately show ?thesis
    using f by metis
qed

lemma of_char_digit: "d < 10 \<Longrightarrow> (of_char (digit d) :: nat) = 48 + d"
  by (simp add: digit_def)

lemma digit_is_digit: "d < 10 \<Longrightarrow> is_digit (digit d)"
  by (simp add: is_digit_def of_char_digit)

lemma string_of_nat_digits: "ch \<in> set (string_of_nat n) \<Longrightarrow> is_digit ch"
proof (induction n rule: string_of_nat.induct)
  case (1 n)
  show ?case
  proof (cases "n < 10")
    case True
    with "1.prems" show ?thesis
      by (simp add: string_of_nat.simps [of n] digit_is_digit)
  next
    case False
    with "1.prems" "1.IH" show ?thesis
      by (auto simp: string_of_nat.simps [of n] digit_is_digit)
  qed
qed

lemma decimal_value_snoc:
  "decimal_value (ds @ [ch]) = 10 * decimal_value ds + ((of_char ch :: nat) - 48)"
  by (simp add: decimal_value_def)

lemma decimal_value_string_of_nat: "decimal_value (string_of_nat n) = n"
proof (induction n rule: string_of_nat.induct)
  case (1 n)
  show ?case
  proof (cases "n < 10")
    case True
    then show ?thesis
      by (simp add: string_of_nat.simps [of n] decimal_value_def of_char_digit)
  next
    case False
    with "1.IH" show ?thesis
      by (simp add: string_of_nat.simps [of n] decimal_value_snoc of_char_digit)
  qed
qed

lemma string_of_nat_nonempty: "string_of_nat n \<noteq> []"
  by (simp add: string_of_nat.simps [of n])

lemma string_of_nat_no_leading_zero: "0 < n \<Longrightarrow> hd (string_of_nat n) \<noteq> CHR ''0''"
proof (induction n rule: string_of_nat.induct)
  case (1 n)
  show ?case
  proof (cases "n < 10")
    case True
    have "(of_char (digit n) :: nat) \<noteq> of_char CHR ''0''"
      using True "1.prems" by (simp add: of_char_digit)
    then have "digit n \<noteq> CHR ''0''" by auto
    with True show ?thesis
      by (simp add: string_of_nat.simps [of n])
  next
    case False
    then have "0 < n div 10" by simp
    with False "1.IH" have "hd (string_of_nat (n div 10)) \<noteq> CHR ''0''" by simp
    with False show ?thesis
      by (simp add: string_of_nat.simps [of n] hd_append string_of_nat_nonempty)
  qed
qed

lemma join_closed: "join sep xs = (if xs = [] then [] else hd xs @ concat (map ((@) sep) (tl xs)))"
  by (induction sep xs rule: join.induct) simp_all

lemma paramCase_pageSize: "paramCase ''pageSize'' = ''page-size''"
  by code_simp

lemma paramCase_nextPageToken: "paramCase ''nextPageToken'' = ''next-page-token''"
  by code_simp

lemma listDatasets_sent:
  "sent (snd (listDatasets parse c f w)) =
     sent w @ [\<lparr>verb = GET, endpoint = DATASETS_EP, query = queryParams f, body = None\<rparr>]"
  by (simp add: listDatasets_def HttpClient_get_eq split: sum.splits)

lemma serialize_Number:
  "\<exists>ds. serialize (Number i) = (if i < 0 then CHR ''-'' # ds else ds) \<and> ds \<noteq> [] \<and>
        (\<forall>ch \<in> set ds. is_digit ch) \<and> decimal_value ds = nat \<bar>i\<bar> \<and>
        (i \<noteq> 0 \<longrightarrow> hd ds \<noteq> CHR ''0'')"
proof (cases "i < 0")
  case True
  then have "serialize (Number i) = CHR ''-'' # string_of_nat (nat \<bar>i\<bar>)"
    by (simp add: string_of_int_def)
  moreover have "0 < nat \<bar>i\<bar>"
    using True by simp
  ultimately show ?thesis
    using True string_of_nat_nonempty string_of_nat_digits decimal_value_string_of_nat
      string_of_nat_no_leading_zero
    by (intro exI [of _ "string_of_nat (nat \<bar>i\<bar>)"]) auto
next
  case False
  then have "serialize (Number i) = string_of_nat (nat \<bar>i\<bar>)"
    by (simp add: string_of_int_def)
  moreover have "i \<noteq> 0 \<Longrightarrow> 0 < nat \<bar>i\<bar>"
    by simp
  ultimately show ?thesis
    using False string_of_nat_nonempty string_of_nat_digits decimal_value_string_of_nat
      string_of_nat_no_leading_zero
    by (intro exI [of _ "string_of_nat (nat \<bar>i\<bar>)"]) auto
qed

lemma serialize_numbers:
  "serialize (Number 0) = ''0''" "serialize (Number 2) = ''2''"
  "serialize (Number 12) = ''12''" "serialize (Number 100) = ''100''"
  "serialize (Number (- 7)) = ''-7''"
  by code_simp+

text \<open>
  The model of \<^verbatim>\<open>paramCase\<close> on keys that are not in lower camel case: a leading capital,
  a run of capitals, an underscore, dots.
\<close>

lemma paramCase_words:
  "paramCase ''PageSize'' = ''page-size''" "paramCase ''userID'' = ''user-id''"
  "paramCase ''foo_bar'' = ''foo-bar''" "paramCase ''XMLHttpRequest'' = ''xml-http-request''"
  "paramCase ''dataset.metadata.tags'' = ''dataset-metadata-tags''"
  by code_simp+

text \<open>
  Claim C5. The query of a list request, for apps and for datasets, has one parameter
  for each key of the filter, in the filter's order, named by the lowercase-hyphenated
  form of the key and valued by the serialized matcher. The hyphenated form is made of
  small letters, digits and hyphens, neither starts nor ends with a hyphen, and leaves a
  key of small letters and digits as it is; \<^verbatim>\<open>pageSize\<close> and \<^verbatim>\<open>nextPageToken\<close> become
  \<^verbatim>\<open>page-size\<close> and \<^verbatim>\<open>next-page-token\<close>. A text is its own string form. The string form of
  a number is its decimal numeral: a minus sign when it is negative, then digits that
  denote its absolute value, with no leading zero. An all-of matcher is \<^verbatim>\<open>all:\<close> and its
  strings with commas between them; over \<^verbatim>\<open>tag1\<close>, \<^verbatim>\<open>tag2\<close> it is \<^verbatim>\<open>all:tag1,tag2\<close>.
\<close>

theorem filter_query_encoding:
  "query (last (sent (snd (AppImpl_list parse c (Some kvs) w)))) =
     map (\<lambda>(k, v). (paramCase k, serialize v)) kvs \<and>
   query (last (sent (snd (listDatasets parse c (Some kvs) w')))) =
     map (\<lambda>(k, v). (paramCase k, serialize v)) kvs \<and>
   (\<forall>k. \<forall>ch \<in> set (paramCase k). is_lower ch \<or> is_digit ch \<or> ch = CHR ''-'') \<and>
   (\<forall>k. paramCase k \<noteq> [] \<longrightarrow>
      hd (paramCase k) \<noteq> CHR ''-'' \<and> last (paramCase k) \<noteq> CHR ''-'') \<and>
   (\<forall>k. (\<forall>ch \<in> set k. is_lower ch \<or> is_digit ch) \<longrightarrow> paramCase k = k) \<and>
   paramCase ''pageSize'' = ''page-size'' \<and>
   paramCase ''nextPageToken'' = ''next-page-token'' \<and>
   (\<forall>s. serialize (Text s) = s) \<and>
   (\<forall>i. \<exists>ds. serialize (Number i) = (if i < 0 then CHR ''-'' # ds else ds) \<and> ds \<noteq> [] \<and>
          (\<forall>ch \<in> set ds. is_digit ch) \<and> decimal_value ds = nat \<bar>i\<bar> \<and>
          (i \<noteq> 0 \<longrightarrow> hd ds \<noteq> CHR ''0'')) \<and>
   serialize (Number 0) = ''0'' \<and>
   serialize (Number 2) = ''2'' \<and>
   serialize (Number 12) = ''12'' \<and>
   serialize (Number (- 7)) = ''-7'' \<and>
   (\<forall>tags. serialize (AllOf tags) =
      ''all:'' @ (if tags = [] then [] else hd tags @ concat (map ((@) '','') (tl tags)))) \<and>
   serialize (AllOf [''tag1'', ''tag2'']) = ''all:tag1,tag2'' \<and>
   serialize (AllOf [''a'', ''b'', ''c'']) = ''all:a,b,c''"
proof (intro conjI allI impI ballI)
  show "query (last (sent (snd (AppImpl_list parse c (Some kvs) w)))) =
          map (\<lambda>(k, v). (paramCase k, serialize v)) kvs"
    by (simp add: AppImpl_list_sent queryParams_def)
  show "query (last (sent (snd (listDatasets parse c (Some kvs) w')))) =
          map (\<lambda>(k, v). (paramCase k, serialize v)) kvs"
    by (simp add: listDatasets_sent queryParams_def)
  show "is_lower ch \<or> is_digit ch \<or> ch = CHR ''-''" if "ch \<in> set (paramCase k)" for k ch
    using that by (rule paramCase_chars)
  show "hd (paramCase k) \<noteq> CHR ''-''" if "paramCase k \<noteq> []" for k
    using paramCase_ends [OF that] by simp
  show "last (paramCase k) \<noteq> CHR ''-''" if "paramCase k \<noteq> []" for k
    using paramCase_ends [OF that] by simp
  show "paramCase k = k" if "\<forall>ch \<in> set k. is_lower ch \<or> is_digit ch" for k
    using that by (rule paramCase_fixed)
  show "paramCase ''pageSize'' = ''page-size''"
    by (rule paramCase_pageSize)
  show "paramCase ''nextPageToken'' = ''next-page-token''"
    by (rule paramCase_nextPageToken)
  show "serialize (Text s) = s" for s
    by simp
  show "\<exists>ds. serialize (Number i) = (if i < 0 then CHR ''-'' # ds else ds) \<and> ds \<noteq> [] \<and>
          (\<forall>ch \<in> set ds. is_digit ch) \<and> decimal_value ds = nat \<bar>i\<bar> \<and>
          (i \<noteq> 0 \<longrightarrow> hd ds \<noteq> CHR ''0'')" for i
    by (rule serialize_Number)
  show "serialize (Number 0) = ''0''" "serialize (Number 2) = ''2''"
    "serialize (Number 12) = ''12''" "serialize (Number (- 7)) = ''-7''"
    by (rule serialize_numbers)+
  show "serialize (AllOf tags) =
      ''all:'' @ (if tags = [] then [] else hd tags @ concat (map ((@) '','') (tl tags)))" for tags
    by (simp add: join_closed)
  show "serialize (AllOf [''tag1'', ''tag2'']) = ''all:tag1,tag2''"
    by simp
  show "serialize (AllOf [''a'', ''b'', ''c'']) = ''all:a,b,c''"
    by simp
qed

theorem filter_query_encoding_witness:
  "CHR ''s'' \<in> set (paramCase ''pageSize'') \<and> is_lower CHR ''s'' \<and>
   paramCase ''pageSize'' \<noteq> [] \<and> hd (paramCase ''pageSize'') = CHR ''p'' \<and>
   list_all (\<lambda>ch. is_lower ch \<or> is_digit ch) ''owner'' \<and> paramCase ''owner'' = ''owner'' \<and>
   serialize (Number (- 7)) = CHR ''-'' # ''7'' \<and> decimal_value ''7'' = nat \<bar>- 7\<bar> \<and>
   query (last (sent (snd (AppImpl_list exampleParse (answering 200 (AppPageJson examplePage))
       (Some [(''owner'', Text ''i0''), (''participation'', Text ''invited''),
              (''pageSize'', Number 2), (''nextPageToken'', Text ''token-1'')])
       emptyWorld)))) =
     [(''owner'', ''i0''), (''participation'', ''invited''),
      (''page-size'', ''2''), (''next-page-token'', ''token-1'')] \<and>
   query (last (sent (snd (listDatasets exampleParse (answering 200 (DatasetPageJson exampleDatasetPage))
       (Some [(''owner'', Text ''i1''), (''creator'', Text ''i0''),
              (''tags'', AllOf [''tag1'', ''tag2'']),
              (''pageSize'', Number 2), (''nextPageToken'', Text ''token-2'')])
       emptyWorld)))) =
     [(''owner'', ''i1''), (''creator'', ''i0''), (''tags'', ''all:tag1,tag2''),
      (''page-size'', ''2''), (''next-page-token'', ''token-2'')]"
proof -
  note enc = filter_query_encoding [of exampleParse "answering 200 (AppPageJson examplePage)"
      "[(''owner'', Text ''i0''), (''participation'', Text ''invited''),
        (''pageSize'', Number 2), (''nextPageToken'', Text ''token-1'')]" emptyWorld emptyWorld]
  note enc' = filter_query_encoding [of exampleParse
      "answering 200 (DatasetPageJson exampleDatasetPage)"
      "[(''owner'', Text ''i1''), (''creator'', Text ''i0''),
        (''tags'', AllOf [''tag1'', ''tag2'']),
        (''pageSize'', Number 2), (''nextPageToken'', Text ''token-2'')]" emptyWorld emptyWorld]
  have ps: "paramCase ''pageSize'' = ''page-size''"
    and nt: "paramCase ''nextPageToken'' = ''next-page-token''"
    and two: "serialize (Number 2) = ''2''"
    and tags: "serialize (AllOf [''tag1'', ''tag2'']) = ''all:tag1,tag2''"
    and m7: "serialize (Number (- 7)) = ''-7''"
    using enc by blast+
  have m: "CHR ''s'' \<in> set (paramCase ''pageSize'')"
    unfolding ps by simp
  have s: "is_lower CHR ''s''"
    by (simp add: is_lower_def)
  have ne: "paramCase ''pageSize'' \<noteq> []" "hd (paramCase ''pageSize'') = CHR ''p''"
    unfolding ps by simp_all
  have o: "\<forall>ch \<in> set ''owner''. is_lower ch \<or> is_digit ch"
    by (simp add: is_lower_def)
  have ow: "paramCase ''owner'' = ''owner''"
    using o enc by blast
  have low: "paramCase ''participation'' = ''participation''"
    "paramCase ''creator'' = ''creator''" "paramCase ''tags'' = ''tags''"
    by code_simp+
  have d: "decimal_value ''7'' = nat \<bar>- 7\<bar>"
    by (simp add: decimal_value_def)
  have q1: "query (last (sent (snd (AppImpl_list exampleParse (answering 200 (AppPageJson examplePage))
       (Some [(''owner'', Text ''i0''), (''participation'', Text ''invited''),
              (''pageSize'', Number 2), (''nextPageToken'', Text ''token-1'')])
       emptyWorld)))) =
     map (\<lambda>(k, v). (paramCase k, serialize v))
       [(''owner'', Text ''i0''), (''participation'', Text ''invited''),
        (''pageSize'', Number 2), (''nextPageToken'', Text ''token-1'')]"
    using enc by blast
  have q2: "query (last (sent (snd (listDatasets exampleParse (answering 200 (DatasetPageJson exampleDatasetPage))
       (Some [(''owner'', Text ''i1''), (''creator'', Text ''i0''),
              (''tags'', AllOf [''tag1'', ''tag2'']),
              (''pageSize'', Number 2), (''nextPageToken'', Text ''token-2'')])
       emptyWorld)))) =
     map (\<lambda>(k, v). (paramCase k, serialize v))
       [(''owner'', Text ''i1''), (''creator'', Text ''i0''),
        (''tags'', AllOf [''tag1'', ''tag2'']),
        (''pageSize'', Number 2), (''nextPageToken'', Text ''token-2'')]"
    using enc' by blast
  show ?thesis
    unfolding q1 q2
    using m s ne o d m7
    by (simp add: ps nt ow low two tags del: serialize.simps(2) serialize.simps(3))
qed

section \<open>Properties of the streaming operations\<close>

lemma pipe_append:
  "pipe sink pre s = (Inr (), s1, handed) \<Longrightarrow>
   pipe sink (pre @ rest) s =
     (case pipe sink rest s1 of (r, s2, handed') \<Rightarrow> (r, s2, handed @ handed'))"
proof (induction pre arbitrary: s handed)
  case Nil
  then show ?case by (simp split: prod.splits)
next
  case (Cons chunk pre)
  then show ?case
    by (auto split: prod.splits option.splits)
qed

lemma pipe_error_is_sinks:
  "fst (pipe sink chunks s) = Inl e \<Longrightarrow> \<exists>chunk \<in> set chunks. \<exists>s0. fst (sink chunk s0) = Some e"
proof (induction chunks arbitrary: s)
  case Nil
  then show ?case by simp
next
  case (Cons chunk chunks)
  show ?case
  proof (cases "sink chunk s")
    case (Pair r s')
    show ?thesis
    proof (cases r)
      case None
      with Pair Cons.prems have "fst (pipe sink chunks s') = Inl e"
        by (simp split: prod.splits)
      from Cons.IH [OF this] show ?thesis by auto
    next
      case (Some e')
      with Pair Cons.prems have "e' = e" by simp
      with Pair Some have "fst (sink chunk s) = Some e" by simp
      then show ?thesis by auto
    qed
  qed
qed

lemma receive_as_Bytes_not_2xx:
  "\<not> (200 \<le> status r \<and> status r < 300) \<Longrightarrow> receive 200 as_Bytes r = Inl (RequestError r)"
  by (auto simp: receive_def expect_def split: payload.splits)

lemma receive_as_Bytes_ok:
  "receive 200 as_Bytes \<lparr>status = 200, payload = Bytes chunks\<rparr> = Inr chunks"
  by (simp add: receive_def expect_def as_Bytes_def)

text \<open>
  Claim C6. A download whose response status is outside 2xx fails with the request
  error, the sink untouched and no chunk handed to it. When the sink accepts the chunks
  \<open>pre\<close> and reports the error \<open>e\<close> at the next chunk, \<^verbatim>\<open>pipeTo\<close> fails with \<open>e\<close> itself
  and hands the sink nothing after that chunk; and an error of \<^verbatim>\<open>pipeTo\<close> on a streamed
  body is always one the sink reported.
\<close>

theorem download_failures:
  "(\<not> (200 \<le> status (gateway c (sent w)
            \<lparr>verb = GET, endpoint = ep, query = [], body = None\<rparr>) \<and>
        status (gateway c (sent w)
            \<lparr>verb = GET, endpoint = ep, query = [], body = None\<rparr>) < 300) \<longrightarrow>
      fst (Download_pipeTo (Download c ep) sink s w) =
        (Inl (RequestError (gateway c (sent w)
            \<lparr>verb = GET, endpoint = ep, query = [], body = None\<rparr>)), s, [])) \<and>
   (gateway c (sent w) \<lparr>verb = GET, endpoint = ep, query = [], body = None\<rparr>
      = \<lparr>status = 200, payload = Bytes (pre @ chunk # rest)\<rparr> \<and>
    pipe sink pre s = (Inr (), s1, pre) \<and> sink chunk s1 = (Some e, s2) \<longrightarrow>
      fst (Download_pipeTo (Download c ep) sink s w) = (Inl e, s2, pre @ [chunk])) \<and>
   (gateway c (sent w) \<lparr>verb = GET, endpoint = ep, query = [], body = None\<rparr>
      = \<lparr>status = 200, payload = Bytes chunks\<rparr> \<and>
    fst (fst (Download_pipeTo (Download c ep) sink s w)) = Inl e' \<longrightarrow>
      (\<exists>chunk \<in> set chunks. \<exists>s0. fst (sink chunk s0) = Some e'))"
proof (intro conjI impI)
  let ?r = "gateway c (sent w) \<lparr>verb = GET, endpoint = ep, query = [], body = None\<rparr>"
  assume "\<not> (200 \<le> status ?r \<and> status ?r < 300)"
  then show "fst (Download_pipeTo (Download c ep) sink s w) = (Inl (RequestError ?r), s, [])"
    by (simp add: send_def receive_as_Bytes_not_2xx)
next
  assume a: "gateway c (sent w) \<lparr>verb = GET, endpoint = ep, query = [], body = None\<rparr>
      = \<lparr>status = 200, payload = Bytes (pre @ chunk # rest)\<rparr> \<and>
    pipe sink pre s = (Inr (), s1, pre) \<and> sink chunk s1 = (Some e, s2)"
  then have "pipe sink (pre @ chunk # rest) s = (Inl e, s2, pre @ [chunk])"
    by (simp add: pipe_append)
  with a show "fst (Download_pipeTo (Download c ep) sink s w) = (Inl e, s2, pre @ [chunk])"
    by (simp add: send_def receive_as_Bytes_ok)
next
  assume a: "gateway c (sent w) \<lparr>verb = GET, endpoint = ep, query = [], body = None\<rparr>
      = \<lparr>status = 200, payload = Bytes chunks\<rparr> \<and>
    fst (fst (Download_pipeTo (Download c ep) sink s w)) = Inl e'"
  then have g: "gateway c (sent w) \<lparr>verb = GET, endpoint = ep, query = [], body = None\<rparr>
      = \<lparr>status = 200, payload = Bytes chunks\<rparr>"
    and f: "fst (fst (Download_pipeTo (Download c ep) sink s w)) = Inl e'"
    by simp_all
  from f have "fst (pipe sink chunks s) = Inl e'"
    by (simp add: send_def g receive_as_Bytes_ok)
  then show "\<exists>chunk \<in> set chunks. \<exists>s0. fst (sink chunk s0) = Some e'"
    by (rule pipe_error_is_sinks)
qed

theorem download_failures_witness:
  "\<not> (200 \<le> status (gateway (answering 404 NoContent) (sent emptyWorld)
            \<lparr>verb = GET, endpoint = ''/datasets/d1/download'', query = [], body = None\<rparr>) \<and>
        status (gateway (answering 404 NoContent) (sent emptyWorld)
            \<lparr>verb = GET, endpoint = ''/datasets/d1/download'', query = [], body = None\<rparr>) < 300) \<and>
   fst (Download_pipeTo (downloadDataset (answering 404 NoContent) ''d1'')
          (DownloadCollector None) [] emptyWorld) =
     (Inl (RequestError \<lparr>status = 404, payload = NoContent\<rparr>), [], []) \<and>
   DownloadCollector (Some (Thrown ''whoops'')) ''fixture'' [] = (Some (Thrown ''whoops''), []) \<and>
   fst (Download_pipeTo (downloadDataset (answering 200 (Bytes [''fixture'', '' data''])) ''d1'')
          (DownloadCollector (Some (Thrown ''whoops''))) [] emptyWorld) =
     (Inl (Thrown ''whoops''), [], [''fixture''])"
proof -
  let ?rq = "\<lparr>verb = GET, endpoint = ''/datasets/d1/download'', query = [], body = None\<rparr>"
  let ?c4 = "answering 404 NoContent"
  let ?c2 = "answering 200 (Bytes [''fixture'', '' data''])"
  let ?failing = "DownloadCollector (Some (Thrown ''whoops''))"
  have d: "downloadDataset c ''d1'' = Download c ''/datasets/d1/download''" for c
    by (simp add: downloadDataset_def DATASETS_EP_def)
  have h1: "\<not> (200 \<le> status (gateway ?c4 (sent emptyWorld) ?rq) \<and>
                status (gateway ?c4 (sent emptyWorld) ?rq) < 300)"
    by (simp add: answering_def)
  have r1: "fst (Download_pipeTo (Download ?c4 ''/datasets/d1/download'')
                   (DownloadCollector None) [] emptyWorld) =
              (Inl (RequestError (gateway ?c4 (sent emptyWorld) ?rq)), [], [])"
    using h1 download_failures [where c = "?c4" and w = emptyWorld
        and ep = "''/datasets/d1/download''" and sink = "DownloadCollector None" and s = "[]"]
    by blast
  have g2: "gateway ?c2 (sent emptyWorld) ?rq
              = \<lparr>status = 200, payload = Bytes ([] @ ''fixture'' # ['' data''])\<rparr>"
    by (simp add: answering_def)
  have p2: "pipe ?failing [] [] = (Inr (), [], [])"
    by simp
  have w2: "?failing ''fixture'' [] = (Some (Thrown ''whoops''), [])"
    by (simp add: DownloadCollector_def)
  have r2: "fst (Download_pipeTo (Download ?c2 ''/datasets/d1/download'') ?failing [] emptyWorld) =
              (Inl (Thrown ''whoops''), [], [] @ [''fixture''])"
    using g2 p2 w2 download_failures [where c = "?c2" and w = emptyWorld
        and ep = "''/datasets/d1/download''" and sink = "?failing" and s = "[]" and pre = "[]"
        and chunk = "''fixture''" and rest = "['' data'']" and ?s1.0 = "[]"
        and e = "Thrown ''whoops''" and ?s2.0 = "[]"]
    by blast
  show ?thesis
    using h1 r1 r2 w2 by (simp add: d answering_def)
qed

lemma uploadParts_metadata:
  "(\<exists>p \<in> set (uploadParts data params). partName p = ''metadata'') \<longleftrightarrow>
     (\<exists>ps m. params = Some ps \<and> DatasetUploadParams.metadata ps = Some m)"
proof (cases params)
  case None
  then show ?thesis by (simp add: uploadParts_def)
next
  case (Some ps)
  then show ?thesis
    by (cases "DatasetUploadParams.metadata ps") (simp_all add: uploadParts_def)
qed

lemma uploadDataset_sent:
  "sent (snd (uploadDataset parse c data params w)) =
     sent w @ [\<lparr>verb = POST, endpoint = DATASETS_EP, query = [],
                body = Some (Multipart (uploadParts data params))\<rparr>]"
  by (simp add: uploadDataset_def HttpClient_streamUpload_def send_def split: sum.splits)

text \<open>
  Claim C7. An upload sends one multipart request with exactly one part named \<^verbatim>\<open>data\<close>,
  the byte payload declared \<^verbatim>\<open>application/octet-stream\<close>; a part named \<^verbatim>\<open>metadata\<close> is
  there if and only if metadata was supplied, and it is JSON; and when the gateway
  answers 201 with a Dataset snapshot the handle yields the Dataset built from it.
\<close>

theorem upload_multipart:
  "sent (snd (uploadDataset parse c data params w)) =
     sent w @ [\<lparr>verb = POST, endpoint = DATASETS_EP, query = [],
                body = Some (Multipart (uploadParts data params))\<rparr>] \<and>
   \<lparr>partName = ''data'', contentType = ''application/octet-stream'',
     content = BinaryContent data\<rparr> \<in> set (uploadParts data params) \<and>
   length (filter (\<lambda>p. partName p = ''data'') (uploadParts data params)) = 1 \<and>
   ((\<exists>p \<in> set (uploadParts data params). partName p = ''metadata'') \<longleftrightarrow>
      (\<exists>ps m. params = Some ps \<and> DatasetUploadParams.metadata ps = Some m)) \<and>
   (\<forall>p \<in> set (uploadParts data params).
      partName p = ''metadata'' \<longrightarrow>
        contentType p = ''application/json'' \<and> (\<exists>j. content p = JsonContent j)) \<and>
   (gateway c (sent w)
      \<lparr>verb = POST, endpoint = DATASETS_EP, query = [],
       body = Some (Multipart (uploadParts data params))\<rparr>
      = \<lparr>status = 201, payload = DatasetJson pod\<rparr> \<longrightarrow>
    fst (uploadDataset parse c data params w) = Inr (Dataset_constructor parse c pod))"
proof (intro conjI)
  show "sent (snd (uploadDataset parse c data params w)) =
     sent w @ [\<lparr>verb = POST, endpoint = DATASETS_EP, query = [],
                body = Some (Multipart (uploadParts data params))\<rparr>]"
    by (rule uploadDataset_sent)
  show "\<lparr>partName = ''data'', contentType = ''application/octet-stream'',
     content = BinaryContent data\<rparr> \<in> set (uploadParts data params)"
    by (simp add: uploadParts_def)
  show "length (filter (\<lambda>p. partName p = ''data'') (uploadParts data params)) = 1"
    by (simp add: uploadParts_def split: option.splits)
  show "(\<exists>p \<in> set (uploadParts data params). partName p = ''metadata'') \<longleftrightarrow>
      (\<exists>ps m. params = Some ps \<and> DatasetUploadParams.metadata ps = Some m)"
    by (rule uploadParts_metadata)
  show "\<forall>p \<in> set (uploadParts data params).
      partName p = ''metadata'' \<longrightarrow>
        contentType p = ''application/json'' \<and> (\<exists>j. content p = JsonContent j)"
    by (auto simp: uploadParts_def split: option.splits)
  show "gateway c (sent w)
      \<lparr>verb = POST, endpoint = DATASETS_EP, query = [],
       body = Some (Multipart (uploadParts data params))\<rparr>
      = \<lparr>status = 201, payload = DatasetJson pod\<rparr> \<longrightarrow>
    fst (uploadDataset parse c data params w) = Inr (Dataset_constructor parse c pod)"
    by (simp add: uploadDataset_def HttpClient_streamUpload_def send_def as_PODDataset_def)
qed

theorem upload_multipart_witness:
  "gateway (answering 201 (DatasetJson exampleDataset)) (sent emptyWorld)
      \<lparr>verb = POST, endpoint = DATASETS_EP, query = [],
       body = Some (Multipart (uploadParts ''fixture data''
                (Some \<lparr>DatasetUploadParams.metadata = Some (JObj [(''key'', JNum 42)])\<rparr>)))\<rparr>
      = \<lparr>status = 201, payload = DatasetJson exampleDataset\<rparr> \<and>
   fst (uploadDataset exampleParse (answering 201 (DatasetJson exampleDataset)) ''fixture data''
          (Some \<lparr>DatasetUploadParams.metadata = Some (JObj [(''key'', JNum 42)])\<rparr>) emptyWorld)
     = Inr (Dataset_constructor exampleParse (answering 201 (DatasetJson exampleDataset))
              exampleDataset) \<and>
   uploadParts ''fixture data'' (Some \<lparr>DatasetUploadParams.metadata = Some (JObj [(''key'', JNum 42)])\<rparr>)
     = [\<lparr>partName = ''metadata'', contentType = ''application/json'',
         content = JsonContent (JObj [(''metadata'', JObj [(''key'', JNum 42)])])\<rparr>,
        \<lparr>partName = ''data'', contentType = ''application/octet-stream'',
         content = BinaryContent ''fixture data''\<rparr>] \<and>
   contentType (hd (uploadParts ''fixture data''
       (Some \<lparr>DatasetUploadParams.metadata = Some (JObj [(''key'', JNum 42)])\<rparr>)))
     = ''application/json''"
proof -
  let ?c = "answering 201 (DatasetJson exampleDataset)"
  let ?ps = "Some \<lparr>DatasetUploadParams.metadata = Some (JObj [(''key'', JNum 42)])\<rparr>"
  let ?parts = "uploadParts ''fixture data'' ?ps"
  have g: "gateway ?c (sent emptyWorld)
      \<lparr>verb = POST, endpoint = DATASETS_EP, query = [], body = Some (Multipart ?parts)\<rparr>
      = \<lparr>status = 201, payload = DatasetJson exampleDataset\<rparr>"
    by (simp add: answering_def)
  have r: "fst (uploadDataset exampleParse ?c ''fixture data'' ?ps emptyWorld)
            = Inr (Dataset_constructor exampleParse ?c exampleDataset)"
    using g upload_multipart [of exampleParse ?c "''fixture data''" ?ps emptyWorld exampleDataset]
    by blast
  have e: "?parts = [\<lparr>partName = ''metadata'', contentType = ''application/json'',
         content = JsonContent (JObj [(''metadata'', JObj [(''key'', JNum 42)])])\<rparr>,
        \<lparr>partName = ''data'', contentType = ''application/octet-stream'',
         content = BinaryContent ''fixture data''\<rparr>]"
    by (simp add: uploadParts_def)
  have m: "hd ?parts \<in> set ?parts" "partName (hd ?parts) = ''metadata''"
    by (simp_all add: e)
  have t: "contentType (hd ?parts) = ''application/json''"
    using m upload_multipart [of exampleParse ?c "''fixture data''" ?ps emptyWorld exampleDataset]
    by blast
  show ?thesis
    using g r e t by simp
qed

end
